theory Spec2Isabelle
  imports Complex_Main "HOL-Library.AList"
begin

section \<open>JavaScript values\<close>

text \<open>
  The tracker keeps everything in plain JSON documents, read with \<open>JSON.parse\<close> and
  written with \<open>JSON.stringify\<close>. A value is one of the JavaScript values that can occur
  in such a document while it is in memory. A number is \<open>JNum n\<close> when it is a whole
  number (the milliseconds and counters the program stores), \<open>JFrac q\<close> when it is finite
  and not whole (a fraction), \<open>JInf True\<close> or \<open>JInf False\<close> when it is plus or minus
  infinity (which \<open>JSON.parse\<close> returns for a literal such as \<open>1e999\<close>), and \<open>JNaN\<close>.
  \<open>JTime t\<close> stands for the ISO-8601 string that \<open>new Date(t).toISOString()\<close> returns for
  the instant \<open>t\<close> (milliseconds since the epoch); \<open>JStr\<close> holds every other string.
  An object is the list of its own properties in insertion order. \<open>JFunc f\<close> is a
  function of the runtime, given by its name (such as \<open>Object\<close>), which no document
  holds but which an object yields under a name it inherits.
\<close>

datatype jv =
    JUndef
  | JNull
  | JBool bool
  | JNum int
  | JFrac rat
  | JInf bool
  | JNaN
  | JStr string
  | JTime int
  | JArr "jv list"
  | JObj "(string \<times> jv) list"
  | JFunc string

datatype error = TypeError | RangeError

text \<open>\<open>!!v\<close>: the falsy values are undefined, null, false, 0, NaN and the empty string.\<close>

fun truthy :: "jv \<Rightarrow> bool" where
  "truthy JUndef = False"
| "truthy JNull = False"
| "truthy (JBool b) = b"
| "truthy (JNum n) = (n \<noteq> 0)"
| "truthy (JFrac q) = (q \<noteq> 0)"
| "truthy (JInf b) = True"
| "truthy JNaN = False"
| "truthy (JStr s) = (s \<noteq> [])"
| "truthy (JTime t) = True"
| "truthy (JArr xs) = True"
| "truthy (JObj kvs) = True"
| "truthy (JFunc f) = True"

text \<open>\<open>a || b\<close> and \<open>a && b\<close>.\<close>

definition js_or :: "jv \<Rightarrow> jv \<Rightarrow> jv" where
  "js_or a b = (if truthy a then a else b)"

definition js_and :: "jv \<Rightarrow> jv \<Rightarrow> jv" where
  "js_and a b = (if truthy a then b else a)"

text \<open>\<open>v == null\<close>: true of null and undefined only.\<close>

fun nullish :: "jv \<Rightarrow> bool" where
  "nullish JUndef = True"
| "nullish JNull = True"
| "nullish v = False"

text \<open>
  \<open>o.k\<close> for a value that is not null or undefined (reading a property of those throws,
  which every caller below checks first), and for a key \<open>k\<close> that the tracker reads as a
  property (\<open>version\<close>, \<open>sessions\<close>, \<open>endTime\<close>, \<open>duration\<close>, \<open>tokens\<close>, \<open>name\<close>, ...): an object
  has those it owns, a function has its \<open>name\<close>; on a number, a string, a boolean or an
  array they are undefined, and none of them is inherited. (Keys that come from the
  command line go through \<open>lookupIn\<close> below.)
\<close>

fun field :: "jv \<Rightarrow> string \<Rightarrow> jv" where
  "field (JObj kvs) k = (case map_of kvs k of Some v \<Rightarrow> v | None \<Rightarrow> JUndef)"
| "field (JFunc f) k = (if k = ''name'' then JStr f else JUndef)"
| "field v k = JUndef"

text \<open>
  An array index as a property name: the decimal numeral of a number below \<open>2^32 - 1\<close>,
  without a leading zero.
\<close>

definition digitOf :: "char \<Rightarrow> nat option" where
  "digitOf c = map_of (zip ''0123456789'' [0 ..< 10]) c"

fun readDigits :: "nat \<Rightarrow> string \<Rightarrow> nat option" where
  "readDigits acc [] = Some acc"
| "readDigits acc (c # cs) =
     (case digitOf c of None \<Rightarrow> None | Some d \<Rightarrow> readDigits (10 * acc + d) cs)"

definition readIndex :: "string \<Rightarrow> nat option" where
  "readIndex k =
     (if k = [] \<or> (hd k = CHR ''0'' \<and> tl k \<noteq> []) then None
      else (case readDigits 0 k of
              Some i \<Rightarrow> (if i < 4294967295 then Some i else None)
            | None \<Rightarrow> None))"

text \<open>
  \<open>o[k] = v\<close>: on an object the property is replaced in place or appended; on an array
  an index replaces the element or extends the array, the elements between being
  holes; on a primitive the assignment is silently dropped (the functions of
  \<open>session-tracker.js\<close> are not strict; the methods of the two classes are, and assign to
  objects and arrays only). Two assignments change what is not kept here, and leave
  the value as it is: \<open>__proto__\<close> on an object that has no own property of that name
  replaces the prototype, and a name that is no index on an array (\<open>length\<close> among them)
  is no element. No key the tracker assigns is one of these; a key of \<open>Config.set\<close> can
  be.
\<close>

fun setField :: "jv \<Rightarrow> string \<Rightarrow> jv \<Rightarrow> jv" where
  "setField (JObj kvs) k v =
     (if k = ''__proto__'' \<and> map_of kvs k = None then JObj kvs
      else JObj (AList.update k v kvs))"
| "setField (JArr xs) k v =
     (case readIndex k of
        Some i \<Rightarrow> (if i < length xs then JArr (xs[i := v])
                   else JArr (xs @ replicate (i - length xs) JUndef @ [v]))
      | None \<Rightarrow> JArr xs)"
| "setField w k v = w"

fun isObj :: "jv \<Rightarrow> bool" where
  "isObj (JObj kvs) = True"
| "isObj v = False"

fun isArr :: "jv \<Rightarrow> bool" where
  "isArr (JArr xs) = True"
| "isArr v = False"

subsection \<open>What JSON.stringify keeps\<close>

text \<open>What \<open>JSON.stringify\<close> leaves out: undefined and functions.\<close>

fun omitted :: "jv \<Rightarrow> bool" where
  "omitted JUndef = True"
| "omitted (JFunc f) = True"
| "omitted v = False"

text \<open>
  \<open>JSON.stringify\<close> followed by \<open>JSON.parse\<close>: every property is written once, a
  property whose value is undefined or a function is left out, such an array element
  becomes null, and so do NaN and the two infinities. In the list of an object an entry
  hidden behind an earlier one with the same key is no property of the object.
\<close>

function jsonify :: "jv \<Rightarrow> jv" where
  "jsonify JNaN = JNull"
| "jsonify (JInf b) = JNull"
| "jsonify (JArr xs) = JArr (map (\<lambda>x. if omitted x then JNull else jsonify x) xs)"
| "jsonify (JObj kvs) =
     JObj (map (\<lambda>kv. (fst kv, jsonify (snd kv)))
               (filter (\<lambda>kv. \<not> omitted (snd kv)) (AList.clearjunk kvs)))"
| "jsonify JUndef = JUndef"
| "jsonify (JFunc f) = JUndef"
| "jsonify JNull = JNull"
| "jsonify (JBool b) = JBool b"
| "jsonify (JNum n) = JNum n"
| "jsonify (JFrac q) = JFrac q"
| "jsonify (JStr s) = JStr s"
| "jsonify (JTime t) = JTime t"
  by pat_completeness auto
termination
proof (relation "measure size")
  show "wf (measure size)" by simp
next
  fix xs :: "jv list" and x
  assume "x \<in> set xs"
  then show "(x, JArr xs) \<in> measure size"
    by (induction xs) auto
next
  fix kvs :: "(string \<times> jv) list" and kv
  assume a: "kv \<in> set (filter (\<lambda>kv. \<not> omitted (snd kv)) (AList.clearjunk kvs))"
  have sub: "set (AList.clearjunk al) \<subseteq> set al" for al :: "(string \<times> jv) list"
    by (induction al rule: AList.clearjunk.induct) (auto simp: AList.delete_eq)
  from a sub have "kv \<in> set kvs" by auto
  then show "(snd kv, JObj kvs) \<in> measure size"
    by (induction kvs) auto
qed

text \<open>
  A value that \<open>JSON.stringify\<close> followed by \<open>JSON.parse\<close> gives back as it is: no
  undefined, no function, no NaN, no infinity, every key of an object once. (What
  \<open>JSON.parse\<close> returns need not be one: it may hold an infinity.)
\<close>

fun json_ok :: "jv \<Rightarrow> bool" where
  "json_ok JUndef = False"
| "json_ok (JFunc f) = False"
| "json_ok JNaN = False"
| "json_ok (JInf b) = False"
| "json_ok (JArr xs) = list_all json_ok xs"
| "json_ok (JObj kvs) = (distinct (map fst kvs) \<and> list_all (\<lambda>kv. json_ok (snd kv)) kvs)"
| "json_ok v = True"

section \<open>The environment of one invocation\<close>

text \<open>
  What a run of the tracker reads from outside the store file: the clock, the working
  directory, the random identifiers, the loaded configuration, the collaborators
  (\<open>ProjectDetector\<close>, \<open>path.basename\<close>, \<open>claude --version\<close>) and whether the write of the
  store file succeeds. \<open>dateParse\<close> is \<open>Date.parse\<close> on the strings that are not
  timestamps written by the tracker (\<open>None\<close> is NaN), \<open>toNumber\<close> is the numeric coercion
  of strings, arrays and objects, \<open>strConcat\<close> is \<open>+\<close> when one operand is a string, an
  array, an object or a function, \<open>rounded\<close> is the rounding of an exact result to the
  nearest double (or to an infinity) when an operand is not a whole number.
  \<open>objectInherits\<close> and \<open>arrayInherits\<close> are the prototypes of the running Node: the
  value an object or an array has under a name that is not its own property, \<open>None\<close>
  when it has none. The clock is read once per invocation. \<open>randomUUID k\<close> is what the
  \<open>k\<close>-th call of \<open>generateUUID\<close> inside the migration returns, \<open>sessionUUID\<close> what the
  call that names a new session returns. The detector and the status probe
  return objects, as every branch of their code does.
\<close>

text \<open>A number: finite, plus or minus infinity, or NaN.\<close>

datatype num = Fin rat | PInf | NInf | NotANumber

record env =
  clock :: int
  processCwd :: string
  randomUUID :: "nat \<Rightarrow> string"
  sessionUUID :: string
  configData :: jv
  detectProject :: "jv \<Rightarrow> jv"
  pathBasename :: "jv \<Rightarrow> string"
  validateTags :: "jv \<Rightarrow> jv"
  claudeCodeStatus :: jv
  writeFileOk :: bool
  writeConfigOk :: bool
  dateParse :: "jv \<Rightarrow> int option"
  toNumber :: "jv \<Rightarrow> num"
  strConcat :: "jv \<Rightarrow> jv \<Rightarrow> jv"
  rounded :: "rat \<Rightarrow> num"
  objectInherits :: "string \<Rightarrow> jv option"
  arrayInherits :: "string \<Rightarrow> jv option"

section \<open>Config (config.js)\<close>

text \<open>\<open>path.split('.')\<close>.\<close>

fun split_dot :: "string \<Rightarrow> string list" where
  "split_dot [] = [[]]"
| "split_dot (c # cs) =
     (if c = CHR ''.'' then [] # split_dot cs
      else (case split_dot cs of w # ws \<Rightarrow> (c # w) # ws | [] \<Rightarrow> [[c]]))"

text \<open>
  The own properties of an object or an array: an array has its elements under their
  indices, and its \<open>length\<close>. An undefined element of an array is a hole (no parsed
  array holds undefined, and \<open>setField\<close> fills the holes it makes with it).
\<close>

fun ownProp :: "jv \<Rightarrow> string \<Rightarrow> jv option" where
  "ownProp (JObj kvs) key = map_of kvs key"
| "ownProp (JArr xs) key =
     (case readIndex key of
        Some i \<Rightarrow> (if i < length xs \<and> xs ! i \<noteq> JUndef then Some (xs ! i) else None)
      | None \<Rightarrow> (if key = ''length'' then Some (JNum (int (length xs))) else None))"
| "ownProp current key = None"

text \<open>
  \<open>key in current\<close> and, when it holds, \<open>current[key]\<close>, for a \<open>current\<close> that is truthy and
  of type \<open>object\<close>: an object or an array has its own properties and those it inherits.
\<close>

definition lookupIn :: "env \<Rightarrow> jv \<Rightarrow> string \<Rightarrow> jv option" where
  "lookupIn e current key =
     (case ownProp current key of
        Some v \<Rightarrow> Some v
      | None \<Rightarrow> (case current of
                   JObj kvs \<Rightarrow> objectInherits e key
                 | JArr xs \<Rightarrow> arrayInherits e key
                 | _ \<Rightarrow> None))"

text \<open>
  The loop of \<open>Config.get\<close>: descend while the current value is an object or an array
  that has the key, otherwise return the default.
\<close>

fun get_walk :: "env \<Rightarrow> jv \<Rightarrow> string list \<Rightarrow> jv \<Rightarrow> jv" where
  "get_walk e current [] dflt = current"
| "get_walk e current (key # keys) dflt =
     (case lookupIn e current key of Some v \<Rightarrow> get_walk e v keys dflt | None \<Rightarrow> dflt)"

definition config_get :: "env \<Rightarrow> jv \<Rightarrow> string \<Rightarrow> jv \<Rightarrow> jv" where
  "config_get e cfg path dflt = get_walk e cfg (split_dot path) dflt"

text \<open>\<open>this.defaults.timerModes['claude-max']\<close>, the fallback of \<open>getTimerMode\<close>.\<close>

definition claudeMaxMode :: jv where
  "claudeMaxMode =
     JObj [(''name'', JStr ''Claude Max''),
           (''duration'', JNum (5 * 60 * 60 * 1000)),
           (''warnings'', JArr [JNum (30 * 60 * 1000), JNum (10 * 60 * 1000)]),
           (''autoEnd'', JBool False),
           (''description'', JStr ''Standard 5-hour Claude Code session'')]"

definition getTimerMode :: "env \<Rightarrow> jv \<Rightarrow> string \<Rightarrow> jv" where
  "getTimerMode e cfg mode = config_get e cfg (''timerModes.'' @ mode) claudeMaxMode"





section \<open>The session store (session-tracker.js)\<close>

text \<open>The store file \<open>.claude-sessions.json\<close>: missing, unparseable, or a document.\<close>

datatype store_file = Absent | Corrupt | Doc jv

definition zeroTokens :: jv where
  "zeroTokens = JObj [(''input'', JNum 0), (''output'', JNum 0),
                      (''cacheCreate'', JNum 0), (''cacheRead'', JNum 0)]"

definition noWarnings :: jv where
  "noWarnings = JObj [(''30min'', JBool False), (''10min'', JBool False)]"

text \<open>
  The project of a working directory, as \<open>migrateDataStructure\<close> and \<open>start\<close> compute it:
  the detector when \<open>project.autoDetect\<close> is on, else a record built from
  \<open>path.basename\<close>, which throws on anything but a string.
\<close>

definition projectOf :: "env \<Rightarrow> jv \<Rightarrow> error + jv" where
  "projectOf e workingDir =
     (if truthy (config_get e (configData e) ''project.autoDetect'' (JBool True))
      then Inr (detectProject e workingDir)
      else (case workingDir of
              JStr s \<Rightarrow> Inr (JObj [(''name'', JStr (pathBasename e workingDir)),
                                   (''path'', workingDir), (''type'', JStr ''unknown''),
                                   (''git'', JNull)])
            | JTime t \<Rightarrow> Inr (JObj [(''name'', JStr (pathBasename e workingDir)),
                                    (''path'', workingDir), (''type'', JStr ''unknown''),
                                    (''git'', JNull)])
            | _ \<Rightarrow> Inl TypeError))"

text \<open>
  The callback of \<open>sessions.map\<close> in \<open>migrateDataStructure\<close>. A record that has a
  project and tokens counts as already migrated and is returned as it is; any other is
  rebuilt. \<open>k\<close> counts the calls of \<open>generateUUID\<close> made so far.
\<close>

definition alreadyNew :: "jv \<Rightarrow> bool" where
  "alreadyNew session = truthy (js_and (field session ''project'') (field session ''tokens''))"

definition migratedSession :: "env \<Rightarrow> nat \<Rightarrow> jv \<Rightarrow> jv \<Rightarrow> jv" where
  "migratedSession e k session project =
     JObj [(''id'', js_or (field session ''id'') (JStr (randomUUID e k))),
           (''startTime'', field session ''startTime''),
           (''endTime'', field session ''endTime''),
           (''duration'', field session ''duration''),
           (''mode'', JStr ''claude-max''),
           (''workingDirectory'',
              js_or (field session ''workingDirectory'') (JStr (processCwd e))),
           (''project'', project),
           (''tags'', JArr []),
           (''warnings'', noWarnings),
           (''tokens'', zeroTokens),
           (''environment'', js_or (field session ''environment'') (JStr ''WSL'')),
           (''claudeSessionId'', js_or (field session ''claudeSessionId'') JNull),
           (''claudeCodeVersion'', js_or (field session ''claudeCodeVersion'') JNull)]"

definition migrateSession :: "env \<Rightarrow> nat \<Rightarrow> jv \<Rightarrow> error + (jv \<times> nat)" where
  "migrateSession e k session =
     (if nullish session then Inl TypeError
      else if alreadyNew session then Inr (session, k)
      else (case projectOf e (js_or (field session ''workingDirectory'')
                                    (JStr (processCwd e))) of
              Inl err \<Rightarrow> Inl err
            | Inr project \<Rightarrow>
                Inr (migratedSession e k session project,
                     if truthy (field session ''id'') then k else Suc k)))"

fun migrateSessions :: "env \<Rightarrow> nat \<Rightarrow> jv list \<Rightarrow> error + jv list" where
  "migrateSessions e k [] = Inr []"
| "migrateSessions e k (s # ss) =
     (case migrateSession e k s of
        Inl err \<Rightarrow> Inl err
      | Inr (s', k') \<Rightarrow>
          (case migrateSessions e k' ss of
             Inl err \<Rightarrow> Inl err
           | Inr ss' \<Rightarrow> Inr (s' # ss')))"

definition autoDetectionBlock :: "env \<Rightarrow> jv" where
  "autoDetectionBlock e =
     JObj [(''enabled'', config_get e (configData e) ''sessions.autoDetect'' (JBool True)),
           (''lastScan'', JNull), (''activeSessions'', JArr [])]"

definition migratedData :: "env \<Rightarrow> jv \<Rightarrow> jv list \<Rightarrow> jv" where
  "migratedData e data migratedSessions =
     JObj [(''version'', JStr ''2.0.0''),
           (''sessions'', JArr migratedSessions),
           (''totalUsage'', js_or (field data ''totalUsage'') (JNum 0)),
           (''lastReset'', js_or (field data ''lastReset'') (JTime (clock e))),
           (''monthlySessionCount'', js_or (field data ''monthlySessionCount'') (JNum 0)),
           (''lastMonthReset'', js_or (field data ''lastMonthReset'') (JTime (clock e))),
           (''autoDetection'', autoDetectionBlock e)]"

text \<open>
  \<open>migrateDataStructure\<close>: \<open>data.version\<close> throws on null; \<open>(data.sessions || []).map\<close>
  throws when the value is truthy and not an array.
\<close>

definition migrateDataStructure :: "env \<Rightarrow> jv \<Rightarrow> error + jv" where
  "migrateDataStructure e data =
     (if nullish data then Inl TypeError
      else if field data ''version'' = JStr ''2.0.0'' then Inr data
      else (case js_or (field data ''sessions'') (JArr []) of
              JArr ss \<Rightarrow>
                (case migrateSessions e 0 ss of
                   Inl err \<Rightarrow> Inl err
                 | Inr migratedSessions \<Rightarrow> Inr (migratedData e data migratedSessions))
            | _ \<Rightarrow> Inl TypeError))"

definition freshData :: "env \<Rightarrow> jv" where
  "freshData e =
     JObj [(''version'', JStr ''2.0.0''),
           (''sessions'', JArr []),
           (''totalUsage'', JNum 0),
           (''lastReset'', JTime (clock e)),
           (''monthlySessionCount'', JNum 0),
           (''lastMonthReset'', JTime (clock e)),
           (''autoDetection'', autoDetectionBlock e)]"

text \<open>
  \<open>loadData\<close>: a missing file, a parse error and an exception of the migration all end
  in the fresh document; nothing is written.
\<close>

definition loadData :: "env \<Rightarrow> store_file \<Rightarrow> jv" where
  "loadData e f =
     (case f of
        Doc d \<Rightarrow> (case migrateDataStructure e d of Inr r \<Rightarrow> r | Inl err \<Rightarrow> freshData e)
      | _ \<Rightarrow> freshData e)"

text \<open>
  \<open>saveData\<close> stamps \<open>lastUpdate\<close> and \<open>claudeCodeStatus\<close> and replaces the file with the
  serialised document; any exception (a null document, a failed write) is caught and the
  file stays as it was.
\<close>

definition saveData :: "env \<Rightarrow> jv \<Rightarrow> store_file \<Rightarrow> store_file" where
  "saveData e data f =
     (if nullish data then f
      else
        let d1 = setField data ''lastUpdate'' (JTime (clock e));
            d2 = setField d1 ''claudeCodeStatus'' (claudeCodeStatus e)
        in if writeFileOk e then Doc (jsonify d2) else f)"

section \<open>Arithmetic on values\<close>

text \<open>
  \<open>ToNumber\<close>, and a number as a value. The arithmetic of whole numbers is exact: every
  such quantity of the tracker is a count of milliseconds, of sessions or of tokens,
  far below \<open>2^53\<close>. When an operand is a fraction the exact result is \<open>rounded\<close>; the
  infinities and NaN follow IEEE 754.
\<close>

definition whole :: "rat \<Rightarrow> bool" where
  "whole q = (of_int \<lfloor>q\<rfloor> = q)"

definition toNum :: "env \<Rightarrow> jv \<Rightarrow> num" where
  "toNum e v =
     (case v of
        JUndef \<Rightarrow> NotANumber
      | JNull \<Rightarrow> Fin 0
      | JBool b \<Rightarrow> Fin (if b then 1 else 0)
      | JNum n \<Rightarrow> Fin (of_int n)
      | JFrac q \<Rightarrow> Fin q
      | JInf b \<Rightarrow> (if b then PInf else NInf)
      | JNaN \<Rightarrow> NotANumber
      | JTime t \<Rightarrow> NotANumber
      | JFunc f \<Rightarrow> NotANumber
      | _ \<Rightarrow> toNumber e v)"

definition ofNum :: "num \<Rightarrow> jv" where
  "ofNum x =
     (case x of
        Fin q \<Rightarrow> (if whole q then JNum \<lfloor>q\<rfloor> else JFrac q)
      | PInf \<Rightarrow> JInf True
      | NInf \<Rightarrow> JInf False
      | NotANumber \<Rightarrow> JNaN)"

fun numNeg :: "num \<Rightarrow> num" where
  "numNeg (Fin a) = Fin (- a)"
| "numNeg PInf = NInf"
| "numNeg NInf = PInf"
| "numNeg NotANumber = NotANumber"

fun numAdd :: "env \<Rightarrow> num \<Rightarrow> num \<Rightarrow> num" where
  "numAdd e (Fin a) (Fin b) = (if whole a \<and> whole b then Fin (a + b) else rounded e (a + b))"
| "numAdd e NotANumber y = NotANumber"
| "numAdd e x NotANumber = NotANumber"
| "numAdd e PInf NInf = NotANumber"
| "numAdd e NInf PInf = NotANumber"
| "numAdd e PInf y = PInf"
| "numAdd e NInf y = NInf"
| "numAdd e x PInf = PInf"
| "numAdd e x NInf = NInf"

fun numSign :: "num \<Rightarrow> int" where
  "numSign (Fin a) = (if a > 0 then 1 else if a < 0 then - 1 else 0)"
| "numSign PInf = 1"
| "numSign NInf = - 1"
| "numSign NotANumber = 0"

fun numMul :: "env \<Rightarrow> num \<Rightarrow> num \<Rightarrow> num" where
  "numMul e (Fin a) (Fin b) = (if whole a \<and> whole b then Fin (a * b) else rounded e (a * b))"
| "numMul e x y =
     (if numSign x * numSign y > 0 then PInf
      else if numSign x * numSign y < 0 then NInf
      else NotANumber)"

text \<open>The operands of \<open>+\<close> that make it a concatenation.\<close>

fun stringLike :: "jv \<Rightarrow> bool" where
  "stringLike (JStr s) = True"
| "stringLike (JTime t) = True"
| "stringLike (JArr xs) = True"
| "stringLike (JObj kvs) = True"
| "stringLike (JFunc f) = True"
| "stringLike v = False"

definition js_add :: "env \<Rightarrow> jv \<Rightarrow> jv \<Rightarrow> jv" where
  "js_add e a b =
     (if stringLike a \<or> stringLike b then strConcat e a b
      else ofNum (numAdd e (toNum e a) (toNum e b)))"

definition js_sub :: "env \<Rightarrow> jv \<Rightarrow> jv \<Rightarrow> jv" where
  "js_sub e a b = ofNum (numAdd e (toNum e a) (numNeg (toNum e b)))"

definition js_mul :: "env \<Rightarrow> jv \<Rightarrow> jv \<Rightarrow> jv" where
  "js_mul e a b = ofNum (numMul e (toNum e a) (toNum e b))"

text \<open>\<open>v++\<close>, the new value: always a number.\<close>

definition js_inc :: "env \<Rightarrow> jv \<Rightarrow> jv" where
  "js_inc e v = ofNum (numAdd e (toNum e v) (Fin 1))"

text \<open>
  \<open>new Date(v).getTime()\<close>, as a value: a timestamp string gives its instant, a number
  its whole part when that is within the range of \<open>Date\<close>, undefined and the infinities
  give NaN.
\<close>

definition timeClip :: "int \<Rightarrow> jv" where
  "timeClip n = (if \<bar>n\<bar> \<le> 8640000000000000 then JNum n else JNaN)"

definition dateOf :: "env \<Rightarrow> jv \<Rightarrow> jv" where
  "dateOf e v =
     (case v of
        JTime t \<Rightarrow> JNum t
      | JNum n \<Rightarrow> timeClip n
      | JFrac q \<Rightarrow> timeClip (if q \<ge> 0 then \<lfloor>q\<rfloor> else \<lceil>q\<rceil>)
      | JInf b \<Rightarrow> JNaN
      | JNull \<Rightarrow> JNum 0
      | JBool b \<Rightarrow> JNum (if b then 1 else 0)
      | JUndef \<Rightarrow> JNaN
      | JNaN \<Rightarrow> JNaN
      | _ \<Rightarrow> (case dateParse e v of Some t \<Rightarrow> JNum t | None \<Rightarrow> JNaN))"

section \<open>The warning scheduler\<close>

text \<open>
  \<open>warningTimeouts\<close> is the list of pending \<open>setTimeout\<close> handles of the process. A handle
  is the callback it will run and the delay it was armed with; it fires at
  \<open>now + delay\<close> (the delay is a number of milliseconds, as a value: it may be a
  fraction or infinite). Both schedulers start with \<open>clearWarnings()\<close>, so what they return is
  the whole list.
\<close>

datatype callback =
    Warning30
  | Warning10
  | Expired
  | ModeWarning jv
  | ModeAutoEnd
  | ModeExpired

type_synonym timer = "callback \<times> jv"

text \<open>\<open>if (t > 0) warningTimeouts.push(setTimeout(cb, t))\<close>; a comparison with NaN is false.\<close>

definition arm :: "callback \<Rightarrow> jv \<Rightarrow> timer list" where
  "arm cb timeUntil =
     (case timeUntil of
        JNum d \<Rightarrow> (if d > 0 then [(cb, timeUntil)] else [])
      | JFrac q \<Rightarrow> (if q > 0 then [(cb, timeUntil)] else [])
      | JInf b \<Rightarrow> (if b then [(cb, timeUntil)] else [])
      | _ \<Rightarrow> [])"

definition MAX_SESSION_MS :: "env \<Rightarrow> jv" where
  "MAX_SESSION_MS e =
     js_mul e (config_get e (configData e) ''sessions.maxHours'' (JNum 5)) (JNum (60 * 60 * 1000))"

definition WARNING_30_MIN :: "env \<Rightarrow> jv" where
  "WARNING_30_MIN e =
     config_get e (configData e) ''sessions.warningTimes.warning30'' (JNum (30 * 60 * 1000))"

definition WARNING_10_MIN :: "env \<Rightarrow> jv" where
  "WARNING_10_MIN e =
     config_get e (configData e) ''sessions.warningTimes.warning10'' (JNum (10 * 60 * 1000))"

definition scheduleWarnings :: "env \<Rightarrow> jv \<Rightarrow> timer list" where
  "scheduleWarnings e sessionStart =
     (let startTime = dateOf e sessionStart;
          now = JNum (clock e);
          warning30Time = js_add e startTime (js_sub e (MAX_SESSION_MS e) (WARNING_30_MIN e));
          warning10Time = js_add e startTime (js_sub e (MAX_SESSION_MS e) (WARNING_10_MIN e));
          expiryTime = js_add e startTime (MAX_SESSION_MS e)
      in arm Warning30 (js_sub e warning30Time now)
         @ arm Warning10 (js_sub e warning10Time now)
         @ arm Expired (js_sub e expiryTime now))"

text \<open>
  \<open>scheduleWarningsForMode\<close>: reading \<open>timerConfig.duration\<close> throws when the
  configuration is null, \<open>timerConfig.warnings.forEach\<close> throws unless the warnings are an
  array.
\<close>

definition scheduleWarningsForMode :: "env \<Rightarrow> jv \<Rightarrow> jv \<Rightarrow> error + timer list" where
  "scheduleWarningsForMode e sessionStart timerConfig =
     (if nullish timerConfig then Inl TypeError
      else
        let startTime = dateOf e sessionStart;
            now = JNum (clock e);
            expiryTime = js_add e startTime (field timerConfig ''duration'')
        in (case field timerConfig ''warnings'' of
              JArr ws \<Rightarrow>
                Inr (concat (map (\<lambda>warningTime.
                            arm (ModeWarning warningTime)
                                (js_sub e (js_sub e expiryTime warningTime) now)) ws)
                     @ (if truthy (field timerConfig ''autoEnd'')
                        then arm ModeAutoEnd (js_sub e expiryTime now)
                        else arm ModeExpired (js_sub e expiryTime now)))
            | _ \<Rightarrow> Inl TypeError))"

section \<open>The lifecycle controller\<close>


text \<open>
  The two resets at the head of \<open>start\<close>:
  \<open>(now - new Date(stamp)) / (1000 * 60 * 60 * 24) >= n\<close>. For a whole number of
  milliseconds the quotient reaches \<open>n\<close> exactly when the difference reaches \<open>n\<close> days.
\<close>

definition daysSince :: "env \<Rightarrow> jv \<Rightarrow> int \<Rightarrow> bool" where
  "daysSince e stamp n =
     (case js_sub e (JNum (clock e)) (dateOf e stamp) of
        JNum d \<Rightarrow> d \<ge> n * (1000 * 60 * 60 * 24)
      | _ \<Rightarrow> False)"

definition resetCounters :: "env \<Rightarrow> jv \<Rightarrow> jv" where
  "resetCounters e data =
     (let d1 = (if daysSince e (field data ''lastMonthReset'') 30
                then setField (setField data ''monthlySessionCount'' (JNum 0))
                              ''lastMonthReset'' (JTime (clock e))
                else data)
      in if daysSince e (field d1 ''lastReset'') 1
         then setField (setField d1 ''totalUsage'' (JNum 0)) ''lastReset'' (JTime (clock e))
         else d1)"

text \<open>\<open>s => !s.endTime\<close>; the callback throws on a null element.\<close>

definition isActive :: "jv \<Rightarrow> bool" where
  "isActive s = (\<not> truthy (field s ''endTime''))"

text \<open>\<open>{...project, tags: validatedTags}\<close>.\<close>

fun withTags :: "jv \<Rightarrow> jv \<Rightarrow> jv" where
  "withTags (JObj kvs) tags = JObj (AList.update ''tags'' tags kvs)"
| "withTags v tags = JObj [(''tags'', tags)]"

definition newSession :: "env \<Rightarrow> string \<Rightarrow> jv \<Rightarrow> jv \<Rightarrow> jv \<Rightarrow> jv" where
  "newSession e mode project validatedTags timerConfig =
     JObj [(''id'', JStr (sessionUUID e)),
           (''startTime'', JTime (clock e)),
           (''endTime'', JNull),
           (''duration'', JNull),
           (''mode'', JStr mode),
           (''workingDirectory'', JStr (processCwd e)),
           (''project'', withTags project validatedTags),
           (''tags'', validatedTags),
           (''warnings'', noWarnings),
           (''tokens'', zeroTokens),
           (''environment'', JStr ''WSL''),
           (''claudeSessionId'', JNull),
           (''claudeCodeVersion'', js_or (field (claudeCodeStatus e) ''version'') (JStr ''Unknown'')),
           (''timerConfig'', timerConfig)]"

text \<open>
  \<open>start(mode, customDuration, customTags)\<close>. The result is the store file after the
  call and either the timers the process has armed or the exception that ended it. An
  exception before \<open>saveData\<close> leaves the file as it was; the recovery branch (an active
  session exists) returns before \<open>saveData\<close> as well.
\<close>

definition start :: "env \<Rightarrow> string \<Rightarrow> jv \<Rightarrow> jv \<Rightarrow> store_file \<Rightarrow> store_file \<times> (error + timer list)" where
  "start e mode customDuration customTags f =
     (let data = resetCounters e (loadData e f)
      in (case field data ''sessions'' of
            JArr ss \<Rightarrow>
              (if list_ex nullish ss then (f, Inl TypeError)
               else (case filter isActive ss of
                       activeSession # rest \<Rightarrow>
                         (f, Inr (scheduleWarnings e (field activeSession ''startTime'')))
                     | [] \<Rightarrow>
                         let timerConfig0 = getTimerMode e (configData e) mode;
                             custom = (truthy customDuration \<and> mode = ''custom'')
                         in if custom \<and> nullish timerConfig0 then (f, Inl TypeError)
                            else
                              let timerConfig =
                                    (if custom
                                     then setField timerConfig0 ''duration''
                                            (js_mul e customDuration (JNum (60 * 1000)))
                                     else timerConfig0)
                              in (case projectOf e (JStr (processCwd e)) of
                                    Inl err \<Rightarrow> (f, Inl err)
                                  | Inr project \<Rightarrow>
                                      let session = newSession e mode project
                                                      (validateTags e customTags) timerConfig;
                                          d1 = setField data ''monthlySessionCount''
                                                 (js_add e (js_or (field data ''monthlySessionCount'')
                                                                  (JNum 0)) (JNum 1));
                                          d2 = setField d1 ''sessions'' (JArr (ss @ [session]))
                                      in (saveData e d2 f,
                                          scheduleWarningsForMode e (field session ''startTime'')
                                            timerConfig))))
          | _ \<Rightarrow> (f, Inl TypeError)))"

text \<open>Apply \<open>g\<close> to the first element that satisfies \<open>p\<close>: \<open>activeSessions[0]\<close>, mutated in place.\<close>

fun updFirst :: "('a \<Rightarrow> bool) \<Rightarrow> ('a \<Rightarrow> 'a) \<Rightarrow> 'a list \<Rightarrow> 'a list" where
  "updFirst p g [] = []"
| "updFirst p g (x # xs) = (if p x then g x # xs else x # updFirst p g xs)"

datatype end_result = NoActiveSession | SessionEnded

definition closeSession :: "env \<Rightarrow> jv \<Rightarrow> jv" where
  "closeSession e session =
     setField (setField session ''endTime'' (JTime (clock e)))
              ''duration'' (js_sub e (JNum (clock e)) (dateOf e (field session ''startTime'')))"

text \<open>
  \<open>end()\<close>. The first active session in the order of the array gets its end time and
  its duration; the duration is added to \<open>totalUsage\<close>; the document is saved.
\<close>

definition endSession :: "env \<Rightarrow> store_file \<Rightarrow> store_file \<times> (error + end_result)" where
  "endSession e f =
     (let data = loadData e f
      in (case field data ''sessions'' of
            JArr ss \<Rightarrow>
              (if list_ex nullish ss then (f, Inl TypeError)
               else (case filter isActive ss of
                       [] \<Rightarrow> (f, Inr NoActiveSession)
                     | session # rest \<Rightarrow>
                         let duration = js_sub e (JNum (clock e))
                                          (dateOf e (field session ''startTime''));
                             d1 = setField data ''sessions''
                                    (JArr (updFirst isActive (closeSession e) ss));
                             d2 = setField d1 ''totalUsage''
                                    (js_add e (field data ''totalUsage'') duration)
                         in (saveData e d2 f, Inr SessionEnded)))
          | _ \<Rightarrow> (f, Inl TypeError)))"

text \<open>A command line: \<open>start [--mode] [--duration] [--tags]\<close> or \<open>end\<close>, each in its own process.\<close>

datatype command = Start string jv jv | End

fun exec :: "env \<times> command \<Rightarrow> store_file \<Rightarrow> store_file" where
  "exec (e, Start mode customDuration customTags) f = fst (start e mode customDuration customTags f)"
| "exec (e, End) f = fst (endSession e f)"

definition run :: "(env \<times> command) list \<Rightarrow> store_file \<Rightarrow> store_file" where
  "run cmds f = fold exec cmds f"

text \<open>The sessions of a document, and how many of them have \<open>endTime == null\<close>.\<close>

definition sessionsOf :: "jv \<Rightarrow> jv list" where
  "sessionsOf d = (case field d ''sessions'' of JArr ss \<Rightarrow> ss | _ \<Rightarrow> [])"

definition nullEnd :: "jv \<Rightarrow> bool" where
  "nullEnd s = nullish (field s ''endTime'')"

definition activeCount :: "store_file \<Rightarrow> nat" where
  "activeCount f = (case f of Doc d \<Rightarrow> length (filter nullEnd (sessionsOf d)) | _ \<Rightarrow> 0)"

text \<open>The document in the store file; undefined when there is none.\<close>

definition docOf :: "store_file \<Rightarrow> jv" where
  "docOf f = (case f of Doc d \<Rightarrow> d | _ \<Rightarrow> JUndef)"

text \<open>
  The values that are neither null nor undefined but that \<open>JSON.stringify\<close> writes as
  null or leaves out: NaN, the infinities and functions. Of these only an infinity can
  come out of \<open>JSON.parse\<close>.
\<close>

fun writtenAsNull :: "jv \<Rightarrow> bool" where
  "writtenAsNull JNaN = True"
| "writtenAsNull (JInf b) = True"
| "writtenAsNull (JFunc f) = True"
| "writtenAsNull v = False"

text \<open>No session of the list has such an end time.\<close>

definition endTimesKept :: "jv list \<Rightarrow> bool" where
  "endTimesKept ss = (\<forall>s\<in>set ss. \<not> writtenAsNull (field s ''endTime''))"

text \<open>The invariant of the store: end times that are kept, and at most one open session.\<close>

definition storeInv :: "store_file \<Rightarrow> bool" where
  "storeInv f = (endTimesKept (sessionsOf (docOf f)) \<and> activeCount f \<le> 1)"

section \<open>Auto-detection (auto-detector.js and its handlers in session-tracker.js)\<close>

text \<open>
  \<open>===\<close> and the key comparison of \<open>Map\<close>: primitives compare by value, and a function
  of the runtime is the same wherever it is reached; an object or an array is only
  equal to itself, and two values that come from two parses are never the same object.
\<close>

fun primitive :: "jv \<Rightarrow> bool" where
  "primitive (JArr xs) = False"
| "primitive (JObj kvs) = False"
| "primitive v = True"

definition strictEq :: "jv \<Rightarrow> jv \<Rightarrow> bool" where
  "strictEq a b = (primitive a \<and> a \<noteq> JNaN \<and> a = b)"

definition mapGet :: "(jv \<times> jv) list \<Rightarrow> jv \<Rightarrow> jv option" where
  "mapGet m k = (if primitive k then map_of m k else None)"

definition mapSet :: "(jv \<times> jv) list \<Rightarrow> jv \<Rightarrow> jv \<Rightarrow> (jv \<times> jv) list" where
  "mapSet m k v = (if primitive k then AList.update k v m else m @ [(k, v)])"

text \<open>
  The process running \<open>auto\<close>: the detector's \<open>activeSessions\<close> map, the store file and
  the armed timers. The listeners run inside \<open>emit\<close>, so one entry is processed against
  all three.
\<close>

record auto_state =
  activeSessions :: "(jv \<times> jv) list"
  store :: store_file
  armed :: "timer list"

text \<open>\<open>ClaudeAutoDetector.extractWorkingDirectory\<close>.\<close>

definition extractWorkingDirectory :: "env \<Rightarrow> string \<Rightarrow> string" where
  "extractWorkingDirectory e projectPath =
     (let dirName = pathBasename e (JStr projectPath)
      in (case dirName of
            c # cs \<Rightarrow> (if c = CHR ''-''
                        then CHR ''/'' # map (\<lambda>x. if x = CHR ''-'' then CHR ''/'' else x) cs
                        else dirName)
          | [] \<Rightarrow> dirName))"

text \<open>
  \<open>autoStartSession\<close>: the detected session is appended without looking for an active
  one. \<open>data.sessions.push\<close> throws when the sessions are no array; \<open>None\<close> is that
  exception, which leaves everything as it was.
\<close>

definition autoSession :: "env \<Rightarrow> jv \<Rightarrow> jv" where
  "autoSession e detectedSession =
     (let workingDir = JStr (extractWorkingDirectory e
                               (case field detectedSession ''filePath'' of JStr p \<Rightarrow> p | _ \<Rightarrow> []))
      in JObj [(''id'', JStr (sessionUUID e)),
               (''startTime'', field detectedSession ''startTime''),
               (''endTime'', JNull),
               (''duration'', JNull),
               (''mode'', JStr ''claude-max''),
               (''workingDirectory'', workingDir),
               (''project'', detectProject e workingDir),
               (''tags'', JArr []),
               (''warnings'', noWarnings),
               (''tokens'', js_or (field detectedSession ''tokens'') zeroTokens),
               (''environment'', JStr ''WSL''),
               (''claudeSessionId'', field detectedSession ''sessionId''),
               (''claudeCodeVersion'', JNull)])"

definition autoStartSession :: "env \<Rightarrow> jv \<Rightarrow> auto_state \<Rightarrow> auto_state option" where
  "autoStartSession e detectedSession st =
     (let sessionData = autoSession e detectedSession;
          data = loadData e (store st)
      in (case field data ''sessions'' of
            JArr ss \<Rightarrow>
              Some (st\<lparr> store := saveData e (setField data ''sessions'' (JArr (ss @ [sessionData])))
                                     (store st),
                       armed := scheduleWarnings e (field sessionData ''startTime'') \<rparr>)
          | _ \<Rightarrow> None))"

text \<open>\<open>s => !s.endTime && s.claudeSessionId === sessionId\<close>, the predicate of both \<open>find\<close>s.\<close>

definition tracks :: "jv \<Rightarrow> jv \<Rightarrow> bool" where
  "tracks sessionId s = (isActive s \<and> strictEq (field s ''claudeSessionId'') sessionId)"

text \<open>
  \<open>data.sessions.find(...)\<close>: the callback throws on a null element that comes before
  the first match.
\<close>

fun findTracked :: "jv \<Rightarrow> jv list \<Rightarrow> error + jv option" where
  "findTracked sessionId [] = Inr None"
| "findTracked sessionId (s # ss) =
     (if nullish s then Inl TypeError
      else if tracks sessionId s then Inr (Some s)
      else findTracked sessionId ss)"

text \<open>The listener of \<open>session_updated\<close>.\<close>

definition onSessionUpdated :: "env \<Rightarrow> jv \<Rightarrow> auto_state \<Rightarrow> auto_state option" where
  "onSessionUpdated e sessionData st =
     (let data = loadData e (store st)
      in (case field data ''sessions'' of
            JArr ss \<Rightarrow>
              (case findTracked (field sessionData ''sessionId'') ss of
                 Inl err \<Rightarrow> None
               | Inr None \<Rightarrow> Some st
               | Inr (Some activeSession) \<Rightarrow>
                   Some (st\<lparr> store :=
                      saveData e
                        (setField data ''sessions''
                           (JArr (updFirst (tracks (field sessionData ''sessionId''))
                                    (\<lambda>s. setField s ''tokens'' (field sessionData ''tokens'')) ss)))
                        (store st) \<rparr>))
          | _ \<Rightarrow> None))"

text \<open>\<open>autoEndSession\<close>, the listener of \<open>session_ended\<close>.\<close>

definition autoEndSession :: "env \<Rightarrow> jv \<Rightarrow> auto_state \<Rightarrow> auto_state option" where
  "autoEndSession e detectedSession st =
     (let data = loadData e (store st)
      in (case field data ''sessions'' of
            JArr ss \<Rightarrow>
              (case findTracked (field detectedSession ''sessionId'') ss of
                 Inl err \<Rightarrow> None
               | Inr None \<Rightarrow> Some st
               | Inr (Some activeSession) \<Rightarrow>
                   let duration = js_sub e (JNum (clock e))
                                    (dateOf e (field activeSession ''startTime''));
                       close = (\<lambda>s. setField (setField (setField s ''endTime''
                                                           (JTime (clock e)))
                                                  ''duration'' duration)
                                       ''tokens'' (js_or (field detectedSession ''tokens'')
                                                         (field s ''tokens'')));
                       d1 = setField data ''sessions''
                              (JArr (updFirst (tracks (field detectedSession ''sessionId''))
                                       close ss));
                       d2 = setField d1 ''totalUsage''
                              (js_add e (field data ''totalUsage'')
                                 (field (close activeSession) ''duration''))
                   in Some (st\<lparr> store := saveData e d2 (store st) \<rparr>))
          | _ \<Rightarrow> None))"

text \<open>
  \<open>checkSessionTimeouts\<close>: every detected session without activity for six hours is
  reported as ended and removed from the map. An exception of the listener ends the
  loop.
\<close>

fun checkSessionTimeouts :: "env \<Rightarrow> (jv \<times> jv) list \<Rightarrow> auto_state \<Rightarrow> auto_state" where
  "checkSessionTimeouts e [] st = st"
| "checkSessionTimeouts e ((sessionId, sessionData) # rest) st =
     (case js_sub e (dateOf e (field sessionData ''lastActivity''))
                    (JNum (clock e - 6 * 60 * 60 * 1000)) of
        JNum d \<Rightarrow>
          (if d < 0
           then (case autoEndSession e sessionData st of
                   None \<Rightarrow> st
                 | Some st' \<Rightarrow>
                     checkSessionTimeouts e rest
                       (st'\<lparr> activeSessions :=
                               filter (\<lambda>kv. kv \<noteq> (sessionId, sessionData)) (activeSessions st') \<rparr>))
           else checkSessionTimeouts e rest st)
      | _ \<Rightarrow> checkSessionTimeouts e rest st)"

text \<open>\<open>tokens.input += usage.input_tokens || 0\<close> and its three siblings.\<close>

definition addUsage :: "env \<Rightarrow> jv \<Rightarrow> jv \<Rightarrow> jv" where
  "addUsage e tokens usage =
     (let t1 = setField tokens ''input''
                 (js_add e (field tokens ''input'') (js_or (field usage ''input_tokens'') (JNum 0)));
          t2 = setField t1 ''output''
                 (js_add e (field t1 ''output'') (js_or (field usage ''output_tokens'') (JNum 0)));
          t3 = setField t2 ''cacheCreate''
                 (js_add e (field t2 ''cacheCreate'')
                    (js_or (field usage ''cache_creation_input_tokens'') (JNum 0)))
      in setField t3 ''cacheRead''
           (js_add e (field t3 ''cacheRead'')
              (js_or (field usage ''cache_read_input_tokens'') (JNum 0))))"

text \<open>
  The first half of \<open>processJSONLEntry\<close>: the record of the detected session, taken from
  the map or made new, with the activity stamp, the message count and the token usage
  of the entry added to it. (A record of the map is an object with an object of
  tokens, as this function has made it.)
\<close>

definition trackEntry :: "env \<Rightarrow> jv \<Rightarrow> string \<Rightarrow> jv option \<Rightarrow> jv" where
  "trackEntry e entry filePath known =
     (let sessionData0 =
            (case known of
               Some sd \<Rightarrow> sd
             | None \<Rightarrow>
                 JObj [(''sessionId'', field entry ''sessionId''),
                       (''filePath'', JStr filePath),
                       (''startTime'', field entry ''timestamp''),
                       (''lastActivity'', field entry ''timestamp''),
                       (''cwd'', js_or (field entry ''cwd'') (JStr ''Unknown'')),
                       (''messageCount'', JNum 0),
                       (''tokens'', zeroTokens)]);
          sd1 = setField sessionData0 ''lastActivity'' (field entry ''timestamp'');
          sd2 = setField sd1 ''messageCount'' (js_inc e (field sd1 ''messageCount''))
      in if truthy (field entry ''usage'')
         then setField sd2 ''tokens'' (addUsage e (field sd2 ''tokens'') (field entry ''usage''))
         else sd2)"

text \<open>
  \<open>processJSONLEntry(entry, filePath)\<close>. Destructuring a null entry throws; so does a
  listener whose store has no session array. The caller catches both and goes on with
  the next line, so an exception is the state reached when it was thrown.
\<close>

definition processJSONLEntry :: "env \<Rightarrow> jv \<Rightarrow> string \<Rightarrow> auto_state \<Rightarrow> auto_state" where
  "processJSONLEntry e entry filePath st =
     (if nullish entry then st
      else if \<not> truthy (field entry ''sessionId'') \<or> \<not> truthy (field entry ''timestamp'') then st
      else
        let known = mapGet (activeSessions st) (field entry ''sessionId'');
            sessionData = trackEntry e entry filePath known;
            st1 = st\<lparr> activeSessions :=
                        mapSet (activeSessions st) (field entry ''sessionId'') sessionData \<rparr>;
            listened =
              (if known = None
               then (if truthy (config_get e (configData e) ''sessions.autoStart'' (JBool False))
                     then autoStartSession e sessionData st1
                     else Some st1)
               else onSessionUpdated e sessionData st1)
        in (case listened of
              None \<Rightarrow> st1
            | Some st2 \<Rightarrow> checkSessionTimeouts e (activeSessions st2) st2))"

text \<open>
  \<open>processFileChanges(filePath)\<close>: the last ten lines of the log are processed again on
  every change of the file. A line is what \<open>JSON.parse\<close> made of it, \<open>None\<close> when it does
  not parse (the line is skipped).
\<close>

definition processFileChanges :: "env \<Rightarrow> jv option list \<Rightarrow> string \<Rightarrow> auto_state \<Rightarrow> auto_state" where
  "processFileChanges e lines filePath st =
     fold (\<lambda>line s. case line of None \<Rightarrow> s | Some entry \<Rightarrow> processJSONLEntry e entry filePath s)
          (drop (length lines - 10) lines) st"

section \<open>A sample installation\<close>

text \<open>
  The sections of \<open>Config.getDefaults()\<close> that the tracker reads (\<open>sessions\<close>,
  \<open>timerModes\<close>, \<open>project\<close>), and an environment with that configuration, in which no
  string but a timestamp is a date or a number.
\<close>

definition defaultConfig :: jv where
  "defaultConfig =
     JObj [
       (''sessions'', JObj [
          (''maxHours'', JNum 5),
          (''autoDetect'', JBool True),
          (''autoStart'', JBool False),
          (''pollingInterval'', JNum 2000),
          (''warningTimes'', JObj [(''warning30'', JNum (30 * 60 * 1000)),
                                   (''warning10'', JNum (10 * 60 * 1000))])]),
       (''timerModes'', JObj [
          (''claude-max'', claudeMaxMode),
          (''pomodoro'', JObj [
             (''name'', JStr ''Pomodoro''),
             (''duration'', JNum (25 * 60 * 1000)),
             (''warnings'', JArr [JNum (5 * 60 * 1000)]),
             (''autoEnd'', JBool True),
             (''breakDuration'', JNum (5 * 60 * 1000)),
             (''longBreakAfter'', JNum 4),
             (''longBreakDuration'', JNum (15 * 60 * 1000)),
             (''description'', JStr ''Pomodoro Technique: 25min work + 5min break'')]),
          (''deep-work'', JObj [
             (''name'', JStr ''Deep Work''),
             (''duration'', JNum (90 * 60 * 1000)),
             (''warnings'', JArr [JNum (15 * 60 * 1000), JNum (5 * 60 * 1000)]),
             (''autoEnd'', JBool True),
             (''description'', JStr ''Deep work session: 90 minutes of focused work'')]),
          (''quick-fix'', JObj [
             (''name'', JStr ''Quick Fix''),
             (''duration'', JNum (15 * 60 * 1000)),
             (''warnings'', JArr [JNum (5 * 60 * 1000)]),
             (''autoEnd'', JBool True),
             (''description'', JStr ''Quick fix session: 15 minutes for small tasks'')]),
          (''custom'', JObj [
             (''name'', JStr ''Custom''),
             (''duration'', JNum (60 * 60 * 1000)),
             (''warnings'', JArr [JNum (10 * 60 * 1000)]),
             (''autoEnd'', JBool False),
             (''description'', JStr ''Custom duration timer'')])]),
       (''project'', JObj [
          (''autoDetect'', JBool True),
          (''detectFromGit'', JBool True),
          (''detectFromPackageFiles'', JBool True),
          (''customTags'', JArr []),
          (''ignorePaths'', JArr [JStr ''node_modules'', JStr ''.git'', JStr ''.vscode'',
                                  JStr ''build'', JStr ''dist'', JStr ''__pycache__''])])]"

text \<open>
  The functions that every object inherits from \<open>Object.prototype\<close>, by the name under
  which it has them.
\<close>

definition objectPrototype :: "(string \<times> string) list" where
  "objectPrototype =
     [(''constructor'', ''Object''),
      (''__defineGetter__'', ''__defineGetter__''),
      (''__defineSetter__'', ''__defineSetter__''),
      (''hasOwnProperty'', ''hasOwnProperty''),
      (''__lookupGetter__'', ''__lookupGetter__''),
      (''__lookupSetter__'', ''__lookupSetter__''),
      (''isPrototypeOf'', ''isPrototypeOf''),
      (''propertyIsEnumerable'', ''propertyIsEnumerable''),
      (''toString'', ''toString''),
      (''valueOf'', ''valueOf''),
      (''toLocaleString'', ''toLocaleString'')]"

text \<open>The functions that an array inherits from \<open>Array.prototype\<close> before those.\<close>

definition arrayPrototype :: "(string \<times> string) list" where
  "arrayPrototype =
     (''constructor'', ''Array'') #
     map (\<lambda>f. (f, f))
       [''at'', ''concat'', ''copyWithin'', ''fill'', ''find'', ''findIndex'', ''findLast'',
        ''findLastIndex'', ''lastIndexOf'', ''pop'', ''push'', ''reverse'', ''shift'',
        ''unshift'', ''slice'', ''sort'', ''splice'', ''includes'', ''indexOf'', ''join'',
        ''keys'', ''entries'', ''values'', ''forEach'', ''filter'', ''flat'', ''flatMap'',
        ''map'', ''every'', ''some'', ''reduce'', ''reduceRight'', ''toLocaleString'',
        ''toString'', ''toReversed'', ''toSorted'', ''toSpliced'', ''with'']"

text \<open>
  What an object and an array inherit in the sample: the functions above, and under
  \<open>__proto__\<close> the prototype itself, an object that has no property of its own that
  \<open>JSON.stringify\<close> writes.
\<close>

definition inheritedFrom :: "(string \<times> string) list \<Rightarrow> string \<Rightarrow> jv option" where
  "inheritedFrom proto key =
     (if key = ''__proto__'' then Some (JObj [])
      else map_option JFunc (map_of proto key))"

definition sampleEnv :: env where
  "sampleEnv =
     \<lparr> clock = 0,
       processCwd = ''/home/dev/app'',
       randomUUID = (\<lambda>k. ''migrated''),
       sessionUUID = ''fresh'',
       configData = defaultConfig,
       detectProject = (\<lambda>w. JObj [(''name'', JStr ''app''), (''path'', w),
                                    (''type'', JStr ''unknown''), (''git'', JNull),
                                    (''packageInfo'', JNull)]),
       pathBasename = (\<lambda>p. ''app''),
       validateTags = (\<lambda>tags. JArr []),
       claudeCodeStatus = JObj [(''authenticated'', JBool True), (''version'', JStr ''1.0.0'')],
       writeFileOk = True,
       writeConfigOk = True,
       dateParse = (\<lambda>v. None),
       toNumber = (\<lambda>v. NotANumber),
       strConcat = (\<lambda>a b. JStr []),
       rounded = Fin,
       objectInherits = inheritedFrom objectPrototype,
       arrayInherits = inheritedFrom (arrayPrototype @ objectPrototype) \<rparr>"

text \<open>
  Three store documents: one written by the first version of the tracker (no version,
  a session without project and tokens); one without version whose session has a
  project and tokens but no mode; one at version \<open>2.0.0\<close> whose session has no tokens.
\<close>

definition legacySession :: jv where
  "legacySession =
     JObj [(''id'', JStr ''session_0''),
           (''startTime'', JTime 0),
           (''endTime'', JTime 7200000),
           (''duration'', JNum 7200000),
           (''environment'', JStr ''WSL''),
           (''workingDirectory'', JStr ''/home/dev/app''),
           (''windowsPath'', JNull),
           (''claudeCodeVersion'', JStr ''1.0.0'')]"

definition legacyDoc :: jv where
  "legacyDoc =
     JObj [(''sessions'', JArr [legacySession]),
           (''totalUsage'', JNum 7200000),
           (''lastReset'', JTime 0),
           (''monthlySessionCount'', JNum 1),
           (''lastMonthReset'', JTime 0)]"

definition halfMigratedDoc :: jv where
  "halfMigratedDoc =
     JObj [(''sessions'', JArr [
        JObj [(''id'', JStr ''a''),
              (''startTime'', JTime 0),
              (''endTime'', JNull),
              (''project'', JObj [(''name'', JStr ''app'')]),
              (''tokens'', JObj [(''input'', JNum 7), (''output'', JNum 9)])]])]"

definition currentDocNoTokens :: jv where
  "currentDocNoTokens =
     JObj [(''version'', JStr ''2.0.0''),
           (''sessions'', JArr [
              JObj [(''id'', JStr ''a''), (''startTime'', JTime 0), (''endTime'', JNull)]])]"

text \<open>
  A store as \<open>saveData\<close> wrote it while \<open>claude --version\<close> failed, and a store with an
  ended session and two active ones, the second of them started by the auto-detection.
\<close>

definition savedDoc :: jv where
  "savedDoc =
     JObj [(''version'', JStr ''2.0.0''),
           (''sessions'', JArr []),
           (''totalUsage'', JNum 0),
           (''lastReset'', JTime 0),
           (''monthlySessionCount'', JNum 0),
           (''lastMonthReset'', JTime 0),
           (''autoDetection'', JObj [(''enabled'', JBool True), (''lastScan'', JNull),
                                     (''activeSessions'', JArr [])]),
           (''lastUpdate'', JTime 0),
           (''claudeCodeStatus'', JObj [(''authenticated'', JBool False),
                                        (''error'', JStr ''Command failed: claude --version'')])]"

definition endedSession :: jv where
  "endedSession =
     JObj [(''id'', JStr ''a''), (''startTime'', JTime 0), (''endTime'', JTime 100),
           (''duration'', JNum 100), (''claudeSessionId'', JNull)]"

definition manualSession :: jv where
  "manualSession =
     JObj [(''id'', JStr ''b''), (''startTime'', JTime 1000), (''endTime'', JNull),
           (''duration'', JNull), (''claudeSessionId'', JNull)]"

definition detectedSession :: jv where
  "detectedSession =
     JObj [(''id'', JStr ''c''), (''startTime'', JTime 2000), (''endTime'', JNull),
           (''duration'', JNull), (''claudeSessionId'', JStr ''claude-1'')]"

definition twoActiveDoc :: jv where
  "twoActiveDoc =
     JObj [(''version'', JStr ''2.0.0''),
           (''sessions'', JArr [endedSession, manualSession, detectedSession]),
           (''totalUsage'', JNum 100),
           (''lastReset'', JTime 0),
           (''monthlySessionCount'', JNum 2),
           (''lastMonthReset'', JTime 0)]"

text \<open>
  The store that \<open>JSON.parse\<close> returns for a file whose one session has the end time
  \<open>1e999\<close>: the literal is read as infinity.
\<close>

definition overflowSession :: jv where
  "overflowSession =
     JObj [(''id'', JStr ''a''), (''startTime'', JTime 0), (''endTime'', JInf True),
           (''duration'', JNum 100), (''claudeSessionId'', JNull)]"

definition overflowDoc :: jv where
  "overflowDoc =
     JObj [(''version'', JStr ''2.0.0''),
           (''sessions'', JArr [overflowSession]),
           (''totalUsage'', JNum 100),
           (''lastReset'', JTime 0),
           (''monthlySessionCount'', JNum 1),
           (''lastMonthReset'', JTime 0)]"

text \<open>
  Four more stores with the two active sessions: one whose first session has the empty
  string as its end time; one where \<open>JSON.parse\<close> has read the end time of the first
  session as infinity; one whose first element is null; and one written by the first
  version of the tracker (no version, records without project and tokens).
\<close>

definition blankEndSession :: jv where
  "blankEndSession =
     JObj [(''id'', JStr ''a''), (''startTime'', JTime 0), (''endTime'', JStr []),
           (''duration'', JNum 100), (''claudeSessionId'', JNull)]"

definition storeWith :: "jv list \<Rightarrow> jv" where
  "storeWith ss =
     JObj [(''version'', JStr ''2.0.0''),
           (''sessions'', JArr ss),
           (''totalUsage'', JNum 100),
           (''lastReset'', JTime 0),
           (''monthlySessionCount'', JNum 2),
           (''lastMonthReset'', JTime 0)]"

definition legacyActive :: "string \<Rightarrow> int \<Rightarrow> jv" where
  "legacyActive i t =
     JObj [(''id'', JStr i), (''startTime'', JTime t), (''endTime'', JNull),
           (''duration'', JNull), (''environment'', JStr ''WSL''),
           (''workingDirectory'', JStr ''/home/dev/app''),
           (''windowsPath'', JNull), (''claudeCodeVersion'', JStr ''1.0.0'')]"

definition legacyTwoActiveDoc :: jv where
  "legacyTwoActiveDoc =
     JObj [(''sessions'', JArr [legacyActive ''session_1'' 1000, legacyActive ''session_2'' 2000]),
           (''totalUsage'', JNum 100),
           (''lastReset'', JTime 0),
           (''monthlySessionCount'', JNum 2),
           (''lastMonthReset'', JTime 0)]"

text \<open>A store at the current version, last reset at the instant 0, with no active session.\<close>

definition staleDoc :: jv where
  "staleDoc =
     JObj [(''version'', JStr ''2.0.0''),
           (''sessions'', JArr [endedSession]),
           (''totalUsage'', JNum 100),
           (''lastReset'', JTime 0),
           (''monthlySessionCount'', JNum 2),
           (''lastMonthReset'', JTime 0)]"



text \<open>The same installation at another instant.\<close>

definition sampleAt :: "int \<Rightarrow> env" where
  "sampleAt t = sampleEnv\<lparr> clock := t \<rparr>"

text \<open>
  The installation with \<open>sessions.autoStart\<close> switched on, the detector before it has
  seen anything, and two lines of an activity log of Claude Code: an entry that reports
  ten input and four output tokens, and a later entry of the same session that reports
  seven input tokens.
\<close>

definition autoStartConfig :: jv where
  "autoStartConfig =
     JObj [
       (''sessions'', JObj [
          (''maxHours'', JNum 5),
          (''autoDetect'', JBool True),
          (''autoStart'', JBool True),
          (''pollingInterval'', JNum 2000),
          (''warningTimes'', JObj [(''warning30'', JNum (30 * 60 * 1000)),
                                   (''warning10'', JNum (10 * 60 * 1000))])]),
       (''timerModes'', JObj [(''claude-max'', claudeMaxMode)]),
       (''project'', JObj [(''autoDetect'', JBool True)])]"

definition autoStartAt :: "int \<Rightarrow> env" where
  "autoStartAt t = (sampleAt t)\<lparr> configData := autoStartConfig \<rparr>"

definition idle :: auto_state where
  "idle = \<lparr> activeSessions = [], store = Absent, armed = [] \<rparr>"

definition usageEntry :: jv where
  "usageEntry =
     JObj [(''sessionId'', JStr ''claude-1''),
           (''timestamp'', JTime 1000),
           (''type'', JStr ''assistant''),
           (''cwd'', JStr ''/home/dev/app''),
           (''usage'', JObj [(''input_tokens'', JNum 10), (''output_tokens'', JNum 4)])]"

definition laterEntry :: jv where
  "laterEntry =
     JObj [(''sessionId'', JStr ''claude-1''),
           (''timestamp'', JTime 2000),
           (''type'', JStr ''assistant''),
           (''cwd'', JStr ''/home/dev/app''),
           (''usage'', JObj [(''input_tokens'', JNum 7)])]"

definition logPath :: string where
  "logPath = ''/home/dev/.claude/projects/-home-dev-app/claude-1.jsonl''"

text \<open>
  What the detector knows of a session, and what the store holds of it: the input
  tokens and the number of messages.
\<close>

definition detectedTokens :: "auto_state \<Rightarrow> (jv \<times> jv) list" where
  "detectedTokens st =
     map (\<lambda>kv. (field (field (snd kv) ''tokens'') ''input'', field (snd kv) ''messageCount''))
         (activeSessions st)"

definition storedTokens :: "auto_state \<Rightarrow> jv list" where
  "storedTokens st = map (\<lambda>s. field (field s ''tokens'') ''input'') (sessionsOf (docOf (store st)))"


section \<open>Arithmetic of whole numbers, and the sample installation\<close>

lemma whole_of_int [simp]: "whole (of_int n)"
  by (simp add: whole_def)

lemma whole_minus_of_int [simp]: "whole (- of_int n)"
  using whole_of_int[of "- n"] by (simp del: whole_of_int)

lemma ofNum_of_int [simp]: "ofNum (Fin (of_int n)) = JNum n"
  by (simp add: ofNum_def)

lemma toNum_JNum [simp]: "toNum e (JNum n) = Fin (of_int n)"
  by (simp add: toNum_def)

lemma js_sub_num [simp]: "js_sub e (JNum a) (JNum b) = JNum (a - b)"
  using ofNum_of_int[of "a - b"] by (simp add: js_sub_def del: ofNum_of_int)

lemma js_add_num [simp]: "js_add e (JNum a) (JNum b) = JNum (a + b)"
  using ofNum_of_int[of "a + b"] by (simp add: js_add_def del: ofNum_of_int)

lemma js_mul_num [simp]: "js_mul e (JNum a) (JNum b) = JNum (a * b)"
  using ofNum_of_int[of "a * b"] by (simp add: js_mul_def del: ofNum_of_int)

lemma js_sub_nan [simp]: "js_sub e a JNaN = JNaN" "js_sub e JNaN b = JNaN"
  by (cases "toNum e a"; simp add: js_sub_def toNum_def ofNum_def)
     (simp add: js_sub_def toNum_def ofNum_def)

lemma js_add_nan [simp]: "\<not> stringLike a \<Longrightarrow> js_add e a JNaN = JNaN"
  "\<not> stringLike b \<Longrightarrow> js_add e JNaN b = JNaN"
  by (cases "toNum e a"; simp add: js_add_def toNum_def ofNum_def)
     (simp add: js_add_def toNum_def ofNum_def)

lemma dateOf_JTime [simp]: "dateOf e (JTime t) = JNum t"
  by (simp add: dateOf_def)

lemma dateOf_cases: "dateOf e v = JNaN \<or> (\<exists>n. dateOf e v = JNum n)"
  by (cases v) (auto simp: dateOf_def timeClip_def split: option.splits)

lemma sample_fields [simp]:
  "clock (sampleAt t) = t"
  "processCwd (sampleAt t) = ''/home/dev/app''"
  "sessionUUID (sampleAt t) = ''fresh''"
  "configData (sampleAt t) = defaultConfig"
  "detectProject (sampleAt t) = (\<lambda>w. JObj [(''name'', JStr ''app''), (''path'', w),
                                    (''type'', JStr ''unknown''), (''git'', JNull),
                                    (''packageInfo'', JNull)])"
  "validateTags (sampleAt t) = (\<lambda>tags. JArr [])"
  "claudeCodeStatus (sampleAt t) = JObj [(''authenticated'', JBool True), (''version'', JStr ''1.0.0'')]"
  "writeFileOk (sampleAt t) = True"
  "writeConfigOk (sampleAt t) = True"
  "objectInherits (sampleAt t) = inheritedFrom objectPrototype"
  "randomUUID (sampleAt t) = (\<lambda>k. ''migrated'')"
  "pathBasename (sampleAt t) = (\<lambda>p. ''app'')"
  by (simp_all add: sampleAt_def sampleEnv_def)

lemma sampleEnv_fields [simp]:
  "clock sampleEnv = 0"
  "processCwd sampleEnv = ''/home/dev/app''"
  "configData sampleEnv = defaultConfig"
  "detectProject sampleEnv = (\<lambda>w. JObj [(''name'', JStr ''app''), (''path'', w),
                                    (''type'', JStr ''unknown''), (''git'', JNull),
                                    (''packageInfo'', JNull)])"
  "randomUUID sampleEnv = (\<lambda>k. ''migrated'')"
  "pathBasename sampleEnv = (\<lambda>p. ''app'')"
  by (simp_all add: sampleEnv_def)

section \<open>Serialisation\<close>

lemma json_ok_not_omitted: "json_ok v \<Longrightarrow> \<not> omitted v"
  by (cases v) auto

lemma json_ok_jsonify: "json_ok v \<Longrightarrow> jsonify v = v"
proof (induction v rule: jsonify.induct)
  case (3 xs)
  have "\<And>x. x \<in> set xs \<Longrightarrow> \<not> omitted x"
    using 3(2) by (auto simp: list_all_iff json_ok_not_omitted)
  then show ?case using 3 by (auto simp: list_all_iff intro!: map_idI)
next
  case (4 kvs)
  have c: "AList.clearjunk kvs = kvs" using 4(2) by (simp add: distinct_clearjunk_id)
  have "filter (\<lambda>kv. \<not> omitted (snd kv)) kvs = kvs"
    using 4 by (auto simp: list_all_iff filter_id_conv json_ok_not_omitted)
  then show ?case using 4 c by (auto simp: list_all_iff intro!: map_idI)
qed auto

lemma jsonify_ok: "\<not> omitted v \<Longrightarrow> json_ok (jsonify v)"
proof (induction v rule: jsonify.induct)
  case (3 xs)
  then show ?case by (auto simp: list_all_iff)
next
  case (4 kvs)
  have "distinct (map fst (filter (\<lambda>kv. \<not> omitted (snd kv)) (AList.clearjunk kvs)))"
    by (simp add: distinct_map_filter distinct_clearjunk)
  then show ?case using 4 by (auto simp: list_all_iff comp_def)
qed auto

lemma jsonify_omitted: "omitted v \<Longrightarrow> jsonify v = JUndef"
  by (cases v) auto

lemma map_of_jsonify_aux:
  "distinct (map fst kvs) \<Longrightarrow>
   map_of (map (\<lambda>kv. (fst kv, jsonify (snd kv))) (filter (\<lambda>kv. \<not> omitted (snd kv)) kvs)) k
     = (case map_of kvs k of None \<Rightarrow> None
        | Some v \<Rightarrow> if omitted v then None else Some (jsonify v))"
  by (induction kvs) (auto split: option.splits simp: map_of_eq_None_iff image_iff)

lemma field_jsonify_obj: "isObj s \<Longrightarrow> field (jsonify s) k = jsonify (field s k)"
proof (cases s)
  case (JObj kvs)
  show ?thesis using map_of_jsonify_aux[of "AList.clearjunk kvs" k] 
    by (auto simp: JObj distinct_clearjunk map_of_clearjunk jsonify_omitted split: option.splits)
qed auto

lemma field_jsonify: "k \<noteq> ''name'' \<Longrightarrow> field (jsonify s) k = jsonify (field s k)"
  using field_jsonify_obj[of s k] by (cases s) auto

lemma field_setField:
  "k \<noteq> ''__proto__'' \<Longrightarrow> field (setField d k v) k' = (if isObj d \<and> k' = k then v else field d k')"
  by (cases d) (auto simp: update_conv' split: option.splits)

lemma isObj_setField [simp]: "isObj (setField d k v) = isObj d"
  by (cases d) (auto split: option.splits)

lemma json_ok_field: "json_ok d \<Longrightarrow> field d k \<noteq> JUndef \<Longrightarrow> json_ok (field d k)"
  by (cases d) (auto simp: list_all_iff split: option.splits dest!: map_of_SomeD)

lemma json_ok_setField: "json_ok d \<Longrightarrow> json_ok v \<Longrightarrow> \<not> isArr d \<Longrightarrow> json_ok (setField d k v)"
proof (cases d)
  case (JObj kvs)
  assume a: "json_ok d" "json_ok v"
  have "set (AList.update k v kvs) \<subseteq> insert (k, v) (set kvs)"
    by (induction kvs) auto
  then have "\<forall>kv\<in>set (AList.update k v kvs). json_ok (snd kv)"
    using a JObj by (auto simp: list_all_iff)
  then show ?thesis using a JObj by (simp add: list_all_iff distinct_update)
qed auto

lemma jsonify_nullish: "json_ok v \<or> v = JUndef \<Longrightarrow> nullish (jsonify v) = nullish v"
  by (cases v) auto

section \<open>Migration\<close>

lemma migrate_current:
  "field doc ''version'' = JStr ''2.0.0'' \<Longrightarrow> migrateDataStructure e doc = Inr doc"
  by (cases doc) (simp_all add: migrateDataStructure_def)

lemma sessionsOf_or:
  "js_or (field doc ''sessions'') (JArr []) = JArr ss \<Longrightarrow> sessionsOf doc = ss"
  by (cases "field doc ''sessions''") (auto simp: sessionsOf_def js_or_def split: if_splits)

lemma migrate_old:
  assumes "migrateDataStructure e doc = Inr d" and "field doc ''version'' \<noteq> JStr ''2.0.0''"
  shows "\<exists>ms. migrateSessions e 0 (sessionsOf doc) = Inr ms \<and> d = migratedData e doc ms"
proof -
  from assms have nn: "\<not> nullish doc"
    by (auto simp: migrateDataStructure_def split: if_splits)
  show ?thesis
  proof (cases "js_or (field doc ''sessions'') (JArr [])")
    case (JArr ss)
    note so = sessionsOf_or[OF JArr]
    show ?thesis
    proof (cases "migrateSessions e 0 ss")
      case (Inl err)
      with assms nn JArr show ?thesis by (simp add: migrateDataStructure_def)
    next
      case (Inr ms)
      with assms nn JArr have "d = migratedData e doc ms"
        by (simp add: migrateDataStructure_def)
      with Inr so show ?thesis by simp
    qed
  qed (use assms nn in \<open>simp_all add: migrateDataStructure_def\<close>)
qed

lemma field_migratedData:
  "field (migratedData e doc ms) ''version'' = JStr ''2.0.0''"
  "field (migratedData e doc ms) ''sessions'' = JArr ms"
  "field (migratedData e doc ms) ''totalUsage'' = js_or (field doc ''totalUsage'') (JNum 0)"
  "field (migratedData e doc ms) ''lastReset'' = js_or (field doc ''lastReset'') (JTime (clock e))"
  by (simp_all add: migratedData_def)

lemma sessionsOf_migratedData: "sessionsOf (migratedData e doc ms) = ms"
  by (simp add: sessionsOf_def field_migratedData)

lemma migrate_version:
  assumes "migrateDataStructure e doc = Inr d"
  shows "field d ''version'' = JStr ''2.0.0''"
proof (cases "field doc ''version'' = JStr ''2.0.0''")
  case True
  with assms show ?thesis by (simp add: migrate_current)
next
  case False
  from migrate_old[OF assms False] obtain ms where "d = migratedData e doc ms" by blast
  then show ?thesis by (simp add: field_migratedData)
qed

lemma migrateSession_cases:
  assumes "migrateSession e k s = Inr (s', k')"
  shows "(alreadyNew s \<and> s' = s)
       \<or> (\<not> alreadyNew s \<and> (\<exists>project. s' = migratedSession e k s project))"
proof (cases "alreadyNew s")
  case True
  with assms show ?thesis by (auto simp: migrateSession_def split: if_splits)
next
  case False
  show ?thesis
  proof (cases "projectOf e (js_or (field s ''workingDirectory'') (JStr (processCwd e)))")
    case (Inl err)
    with assms False show ?thesis
      by (simp add: migrateSession_def split: if_splits)
  next
    case (Inr project)
    with assms False have "s' = migratedSession e k s project"
      by (simp add: migrateSession_def split: if_splits)
    with False show ?thesis by blast
  qed
qed

lemma migratedSession_fields:
  "field (migratedSession e k s p) ''endTime'' = field s ''endTime''"
  "field (migratedSession e k s p) ''tokens'' = zeroTokens"
  "field (migratedSession e k s p) ''warnings'' = noWarnings"
  "field (migratedSession e k s p) ''tags'' = JArr []"
  "field (migratedSession e k s p) ''mode'' = JStr ''claude-max''"
  by (simp_all add: migratedSession_def)

lemma migrateSession_shape:
  assumes "migrateSession e k s = Inr (s', k')"
  shows "field s' ''endTime'' = field s ''endTime''
     \<and> (alreadyNew s \<longrightarrow> s' = s)
     \<and> (\<not> alreadyNew s \<longrightarrow> field s' ''tokens'' = zeroTokens \<and> field s' ''warnings'' = noWarnings
            \<and> field s' ''tags'' = JArr [] \<and> field s' ''mode'' = JStr ''claude-max'')"
  using migrateSession_cases[OF assms] by (auto simp: migratedSession_fields)

lemma migrateSessions_nth:
  "migrateSessions e k ss = Inr ms \<Longrightarrow>
     length ms = length ss
     \<and> (\<forall>i < length ss. \<exists>j j'. migrateSession e j (ss ! i) = Inr (ms ! i, j'))"
proof (induction ss arbitrary: k ms)
  case Nil
  then show ?case by simp
next
  case (Cons s ss)
  from Cons.prems obtain s' k' ms' where
    h: "migrateSession e k s = Inr (s', k')" "migrateSessions e k' ss = Inr ms'" "ms = s' # ms'"
    by (auto split: sum.splits)
  from Cons.IH[OF h(2)] have ih: "length ms' = length ss"
    "\<And>i. i < length ss \<Longrightarrow> \<exists>j j'. migrateSession e j (ss ! i) = Inr (ms' ! i, j')"
    by auto
  show ?case
  proof (intro conjI allI impI)
    show "length ms = length (s # ss)" using h(3) ih(1) by simp
  next
    fix i assume "i < length (s # ss)"
    then show "\<exists>j j'. migrateSession e j ((s # ss) ! i) = Inr (ms ! i, j')"
      using h(1,3) ih(2) by (cases i) auto
  qed
qed

text \<open>
  Claim C2, the part that fails. The result of the migration is not a function of the
  document alone: the empty document \<open>{}\<close> has no \<open>lastReset\<close>, the migration fills in
  \<open>new Date().toISOString()\<close>, and two runs at different instants return different
  documents. (The identifiers of \<open>generateUUID()\<close>, \<open>process.cwd()\<close>, the project
  detector and the configuration enter the result in the same way.)
\<close>

theorem migrate_depends_on_clock:
  "migrateDataStructure (sampleAt 0) (JObj []) \<noteq> migrateDataStructure (sampleAt 1) (JObj [])"
  by (simp add: migrateDataStructure_def migratedData_def js_or_def sampleAt_def)

text \<open>
  Claim C2 as amended. Migration is idempotent: whatever the environments of the two
  runs are (clock, identifiers, working directory, detector, configuration), migrating
  the result of a migration returns that result, and a migration that throws has
  nothing to migrate again. A document whose version is \<open>2.0.0\<close> is returned unchanged.
\<close>

theorem migrate_idempotent:
  "(case migrateDataStructure e doc of Inl err \<Rightarrow> Inl err | Inr d \<Rightarrow> migrateDataStructure e' d)
     = migrateDataStructure e doc
   \<and> (field doc ''version'' = JStr ''2.0.0'' \<longrightarrow> migrateDataStructure e doc = Inr doc)"
proof
  show "(case migrateDataStructure e doc of Inl err \<Rightarrow> Inl err
         | Inr d \<Rightarrow> migrateDataStructure e' d) = migrateDataStructure e doc"
  proof (cases "migrateDataStructure e doc")
    case (Inl err)
    then show ?thesis by simp
  next
    case (Inr d)
    then have "migrateDataStructure e' d = Inr d"
      by (intro migrate_current migrate_version)
    with Inr show ?thesis by simp
  qed
next
  show "field doc ''version'' = JStr ''2.0.0'' \<longrightarrow> migrateDataStructure e doc = Inr doc"
    by (simp add: migrate_current)
qed

text \<open>The theorem at a current document with no sessions, migrated at two instants.\<close>

theorem migrate_idempotent_witness:
  "field (JObj [(''version'', JStr ''2.0.0''), (''sessions'', JArr [])]) ''version'' = JStr ''2.0.0''
   \<and> migrateDataStructure (sampleAt 5)
        (JObj [(''version'', JStr ''2.0.0''), (''sessions'', JArr [])])
      = Inr (JObj [(''version'', JStr ''2.0.0''), (''sessions'', JArr [])])"
  using migrate_idempotent
    [where e = "sampleAt 5" and e' = "sampleAt 9"
       and doc = "JObj [(''version'', JStr ''2.0.0''), (''sessions'', JArr [])]"]
  by simp

text \<open>
  Claim C3, the parts that fail. A record that has a project and tokens is taken to be
  migrated already and is returned as it is, so its missing \<open>mode\<close> stays missing; and a
  document at version \<open>2.0.0\<close> is returned as it is, so a session of it that has no
  tokens gets none. Neither migration throws.
\<close>

theorem migrate_fills_counterexample:
  "migrateDataStructure sampleEnv halfMigratedDoc \<noteq> Inl TypeError
   \<and> field (hd (sessionsOf halfMigratedDoc)) ''mode'' = JUndef
   \<and> field (hd (sessionsOf (loadData sampleEnv (Doc halfMigratedDoc)))) ''mode'' = JUndef
   \<and> migrateDataStructure sampleEnv currentDocNoTokens \<noteq> Inl TypeError
   \<and> field (hd (sessionsOf currentDocNoTokens)) ''tokens'' = JUndef
   \<and> field (hd (sessionsOf (loadData sampleEnv (Doc currentDocNoTokens)))) ''tokens'' = JUndef"
  by (simp add: halfMigratedDoc_def currentDocNoTokens_def loadData_def migrateDataStructure_def
      migrateSession_def alreadyNew_def js_or_def js_and_def sessionsOf_def migratedData_def)

lemma migrate_sessions_rel:
  assumes "migrateDataStructure e doc = Inr d"
  shows "length (sessionsOf d) = length (sessionsOf doc)
     \<and> (\<forall>i < length (sessionsOf doc).
          field (sessionsOf d ! i) ''endTime'' = field (sessionsOf doc ! i) ''endTime''
          \<and> (field doc ''version'' = JStr ''2.0.0'' \<or> alreadyNew (sessionsOf doc ! i)
                \<longrightarrow> sessionsOf d ! i = sessionsOf doc ! i)
          \<and> (field doc ''version'' \<noteq> JStr ''2.0.0'' \<and> \<not> alreadyNew (sessionsOf doc ! i)
                \<longrightarrow> field (sessionsOf d ! i) ''tokens'' = zeroTokens
                  \<and> field (sessionsOf d ! i) ''warnings'' = noWarnings
                  \<and> field (sessionsOf d ! i) ''tags'' = JArr []
                  \<and> field (sessionsOf d ! i) ''mode'' = JStr ''claude-max''))"
proof (cases "field doc ''version'' = JStr ''2.0.0''")
  case True
  then have "d = doc" using assms by (simp add: migrate_current)
  then show ?thesis using True by simp
next
  case False
  from migrate_old[OF assms False] obtain ms where
    ms: "migrateSessions e 0 (sessionsOf doc) = Inr ms" and d: "d = migratedData e doc ms"
    by blast
  have so: "sessionsOf d = ms" by (simp add: d sessionsOf_migratedData)
  note nth = migrateSessions_nth[OF ms]
  have each: "field (ms ! i) ''endTime'' = field (sessionsOf doc ! i) ''endTime''
     \<and> (alreadyNew (sessionsOf doc ! i) \<longrightarrow> ms ! i = sessionsOf doc ! i)
     \<and> (\<not> alreadyNew (sessionsOf doc ! i) \<longrightarrow> field (ms ! i) ''tokens'' = zeroTokens
            \<and> field (ms ! i) ''warnings'' = noWarnings
            \<and> field (ms ! i) ''tags'' = JArr [] \<and> field (ms ! i) ''mode'' = JStr ''claude-max'')"
    if "i < length (sessionsOf doc)" for i
  proof -
    from nth that obtain j j' where "migrateSession e j (sessionsOf doc ! i) = Inr (ms ! i, j')"
      by blast
    then show ?thesis by (rule migrateSession_shape)
  qed
  show ?thesis
    unfolding so using nth False each by simp
qed

lemma isObj_version: "field d ''version'' = JStr ''2.0.0'' \<Longrightarrow> isObj d"
  by (cases d) auto

lemma isObj_migrate: "migrateDataStructure e d = Inr r \<Longrightarrow> isObj r"
  using isObj_version migrate_version by blast

lemma isObj_loadData: "isObj (loadData e f)"
  by (auto simp: loadData_def freshData_def isObj_migrate split: store_file.splits sum.splits)

text \<open>
  Claim C3 as amended. Whenever the migration returns: the version of the result is
  \<open>2.0.0\<close>; the result has as many sessions as the input, in the same order; every session
  has the \<open>endTime\<close> it had (none is invented); a session of a document at version
  \<open>2.0.0\<close>, and a session that has both a project and tokens, is unchanged; every other
  session (one without tokens among them) gets zeroed tokens, the warnings
  \<open>{30min: false, 10min: false}\<close>, no tags and the mode \<open>claude-max\<close>.
\<close>

theorem migrate_shape:
  assumes "migrateDataStructure e doc = Inr d"
  shows "field d ''version'' = JStr ''2.0.0''
     \<and> length (sessionsOf d) = length (sessionsOf doc)
     \<and> (\<forall>i < length (sessionsOf doc).
          field (sessionsOf d ! i) ''endTime'' = field (sessionsOf doc ! i) ''endTime''
          \<and> (field doc ''version'' = JStr ''2.0.0'' \<or> alreadyNew (sessionsOf doc ! i)
                \<longrightarrow> sessionsOf d ! i = sessionsOf doc ! i)
          \<and> (field doc ''version'' \<noteq> JStr ''2.0.0'' \<and> \<not> alreadyNew (sessionsOf doc ! i)
                \<longrightarrow> field (sessionsOf d ! i) ''tokens'' = zeroTokens
                  \<and> field (sessionsOf d ! i) ''warnings'' = noWarnings
                  \<and> field (sessionsOf d ! i) ''tags'' = JArr []
                  \<and> field (sessionsOf d ! i) ''mode'' = JStr ''claude-max''))"
  using migrate_version[OF assms] migrate_sessions_rel[OF assms] by simp

text \<open>
  The theorem at a store written by the first version of the tracker: one ended
  session, no version, no tokens.
\<close>

theorem migrate_shape_witness:
  "migrateDataStructure sampleEnv legacyDoc = Inr (loadData sampleEnv (Doc legacyDoc))
   \<and> field (loadData sampleEnv (Doc legacyDoc)) ''version'' = JStr ''2.0.0''
   \<and> length (sessionsOf (loadData sampleEnv (Doc legacyDoc))) = 1
   \<and> field (sessionsOf (loadData sampleEnv (Doc legacyDoc)) ! 0) ''endTime'' = JTime 7200000
   \<and> field (sessionsOf (loadData sampleEnv (Doc legacyDoc)) ! 0) ''tokens'' = zeroTokens
   \<and> field (sessionsOf (loadData sampleEnv (Doc legacyDoc)) ! 0) ''mode'' = JStr ''claude-max''"
proof -
  have nt: "\<forall>err. migrateDataStructure sampleEnv legacyDoc \<noteq> Inl err"
    by (simp add: legacyDoc_def legacySession_def migrateDataStructure_def migrateSession_def
        alreadyNew_def js_or_def js_and_def projectOf_def config_get_def lookupIn_def
        defaultConfig_def)
  then have m: "migrateDataStructure sampleEnv legacyDoc = Inr (loadData sampleEnv (Doc legacyDoc))"
    by (cases "migrateDataStructure sampleEnv legacyDoc") (simp_all add: loadData_def)
  have s: "sessionsOf legacyDoc = [legacySession]" and v: "field legacyDoc ''version'' = JUndef"
    by (simp_all add: legacyDoc_def sessionsOf_def)
  have n: "\<not> alreadyNew legacySession" and t: "field legacySession ''endTime'' = JTime 7200000"
    by (simp_all add: legacySession_def alreadyNew_def js_and_def)
  from migrate_shape[OF m] show ?thesis
    using m s v n t by simp
qed

section \<open>The warning scheduler arms what is still ahead\<close>







section \<open>At most one active session\<close>

lemma field_resetCounters_sessions:
  "field (resetCounters e d) ''sessions'' = field d ''sessions''"
  by (simp add: resetCounters_def Let_def field_setField)

lemma isObj_resetCounters: "isObj (resetCounters e d) = isObj d"
  by (simp add: resetCounters_def Let_def)

lemma field_newSession_endTime: "field (newSession e mode p tags tc) ''endTime'' = JNull"
  by (simp add: newSession_def)

lemma sessionsOf_JArr: "field d ''sessions'' = JArr ss \<Longrightarrow> sessionsOf d = ss"
  by (simp add: sessionsOf_def)

lemma start_file:
  "fst (start e mode cd tags f) = f \<or>
   (\<exists>d session. isObj d
      \<and> field d ''sessions'' = JArr (sessionsOf (loadData e f) @ [session])
      \<and> filter isActive (sessionsOf (loadData e f)) = []
      \<and> field session ''endTime'' = JNull
      \<and> fst (start e mode cd tags f) = saveData e d f)"
proof -
  let ?data = "resetCounters e (loadData e f)"
  have obj: "isObj ?data" by (simp add: isObj_resetCounters isObj_loadData)
  show ?thesis
  proof (cases "field ?data ''sessions''")
    case (JArr ss)
    then have so: "sessionsOf (loadData e f) = ss"
      by (simp add: field_resetCounters_sessions sessionsOf_def)
    show ?thesis
    proof (cases "list_ex nullish ss \<or> filter isActive ss \<noteq> []")
      case True
      then show ?thesis using JArr
        by (auto simp: start_def Let_def split: list.splits)
    next
      case False
      then have na: "filter isActive ss = []" and nn: "\<not> list_ex nullish ss" by auto
      show ?thesis
      proof (cases "projectOf e (JStr (processCwd e))")
        case (Inl err)
        then show ?thesis using JArr na nn by (simp add: start_def Let_def)
      next
        case (Inr project)
        show ?thesis
        proof (cases "truthy cd \<and> mode = ''custom'' \<and> nullish (getTimerMode e (configData e) mode)")
          case True
          then have "start e mode cd tags f = (f, Inl TypeError)"
            using JArr na nn by (auto simp: start_def Let_def)
          then show ?thesis by simp
        next
          case False
          let ?tc = "if truthy cd \<and> mode = ''custom''
                     then setField (getTimerMode e (configData e) mode) ''duration''
                            (js_mul e cd (JNum (60 * 1000)))
                     else getTimerMode e (configData e) mode"
          let ?session = "newSession e mode project (validateTags e tags) ?tc"
          let ?d2 = "setField (setField ?data ''monthlySessionCount''
                       (js_add e (js_or (field ?data ''monthlySessionCount'') (JNum 0)) (JNum 1)))
                       ''sessions'' (JArr (ss @ [?session]))"
          have "fst (start e mode cd tags f) = saveData e ?d2 f"
            using JArr na nn Inr False by (auto simp: start_def Let_def)
          moreover have "isObj ?d2" using obj by simp
          moreover have "field ?d2 ''sessions'' = JArr (ss @ [?session])"
            using obj by (simp add: field_setField)
          ultimately show ?thesis using so na field_newSession_endTime by blast
        qed
      qed
    qed
  qed (simp_all add: start_def Let_def)
qed

lemma endSession_file:
  "fst (endSession e f) = f \<or>
   (\<exists>d. isObj d
      \<and> field d ''sessions'' = JArr (updFirst isActive (closeSession e) (sessionsOf (loadData e f)))
      \<and> fst (endSession e f) = saveData e d f)"
proof -
  let ?data = "loadData e f"
  have obj: "isObj ?data" by (simp add: isObj_loadData)
  show ?thesis
  proof (cases "field ?data ''sessions''")
    case (JArr ss)
    then have so: "sessionsOf ?data = ss" by (simp add: sessionsOf_def)
    show ?thesis
    proof (cases "list_ex nullish ss \<or> filter isActive ss = []")
      case True
      then show ?thesis using JArr by (auto simp: endSession_def Let_def)
    next
      case False
      then obtain session rest where fa: "filter isActive ss = session # rest"
        by (cases "filter isActive ss") auto
      let ?duration = "js_sub e (JNum (clock e)) (dateOf e (field session ''startTime''))"
      let ?d2 = "setField (setField ?data ''sessions'' (JArr (updFirst isActive (closeSession e) ss)))
                   ''totalUsage'' (js_add e (field ?data ''totalUsage'') ?duration)"
      have "fst (endSession e f) = saveData e ?d2 f"
        using JArr False fa by (simp add: endSession_def Let_def)
      moreover have "isObj ?d2" using obj by simp
      moreover have "field ?d2 ''sessions'' = JArr (updFirst isActive (closeSession e) ss)"
        using obj by (simp add: field_setField)
      ultimately show ?thesis using so by blast
    qed
  qed (simp_all add: endSession_def Let_def)
qed

lemma nullEnd_jsonify:
  "nullEnd (if omitted s then JNull else jsonify s)
     = (nullEnd s \<or> writtenAsNull (field s ''endTime''))"
proof (cases "omitted s")
  case True
  then show ?thesis by (cases s) (simp_all add: nullEnd_def)
next
  case False
  show ?thesis
    by (cases "field s ''endTime''") (simp_all add: False nullEnd_def field_jsonify)
qed

lemma jsonify_kept: "\<not> writtenAsNull (jsonify v)"
  by (cases v) simp_all

lemma endTimesKept_jsonify:
  "endTimesKept (map (\<lambda>x. if omitted x then JNull else jsonify x) ss)"
  by (auto simp: endTimesKept_def field_jsonify jsonify_kept)

lemma saved_sessions:
  assumes "isObj d" and "field d ''sessions'' = JArr ss" and "writeFileOk e"
  shows "\<exists>d'. saveData e d f = Doc d' \<and> json_ok d'
           \<and> sessionsOf d' = map (\<lambda>x. if omitted x then JNull else jsonify x) ss"
proof -
  let ?d2 = "setField (setField d ''lastUpdate'' (JTime (clock e)))
               ''claudeCodeStatus'' (claudeCodeStatus e)"
  have nn: "\<not> nullish d" using assms(1) by (cases d) auto
  have s: "saveData e d f = Doc (jsonify ?d2)"
    using nn assms(3) by (simp add: saveData_def Let_def)
  have "isObj ?d2" using assms(1) by simp
  then have ne: "\<not> omitted ?d2" by (cases ?d2) simp_all
  have "field ?d2 ''sessions'' = JArr ss"
    using assms(1,2) by (simp add: field_setField)
  then have "field (jsonify ?d2) ''sessions'' = jsonify (JArr ss)"
    by (simp add: field_jsonify)
  then have "sessionsOf (jsonify ?d2) = map (\<lambda>x. if omitted x then JNull else jsonify x) ss"
    by (simp add: sessionsOf_def)
  with s jsonify_ok[OF ne] show ?thesis by simp
qed

lemma count_saved:
  assumes "isObj d" and "field d ''sessions'' = JArr ss" and "writeFileOk e"
    and "endTimesKept ss"
  shows "endTimesKept (sessionsOf (docOf (saveData e d f)))
     \<and> activeCount (saveData e d f) = length (filter nullEnd ss)"
proof -
  from saved_sessions[OF assms(1-3)] obtain d' where
    d': "saveData e d f = Doc d'" "json_ok d'"
        "sessionsOf d' = map (\<lambda>x. if omitted x then JNull else jsonify x) ss"
    by blast
  have "filter nullEnd (map (\<lambda>x. if omitted x then JNull else jsonify x) ss)
        = map (\<lambda>x. if omitted x then JNull else jsonify x) (filter nullEnd ss)"
    using assms(4) unfolding filter_map endTimesKept_def
    by (intro arg_cong[where f="map _"] filter_cong) (auto simp: nullEnd_jsonify comp_def)
  then show ?thesis using d' by (simp add: docOf_def activeCount_def endTimesKept_jsonify)
qed

lemma save_not_ok: "\<not> writeFileOk e \<Longrightarrow> saveData e d f = f"
  by (simp add: saveData_def Let_def)

lemma same_endTimes:
  assumes "length ms = length ss"
    and "\<forall>i < length ss. field (ms ! i) ''endTime'' = field (ss ! i) ''endTime''"
  shows "length (filter nullEnd ms) = length (filter nullEnd ss) \<and> (endTimesKept ss \<longrightarrow> endTimesKept ms)"
  using assms
proof (induction ms ss rule: list_induct2)
  case Nil
  then show ?case by simp
next
  case (Cons m ms s ss)
  have hd: "field m ''endTime'' = field s ''endTime''"
    using Cons.prems by (auto dest: spec[where x=0])
  have tl: "\<forall>i < length ss. field (ms ! i) ''endTime'' = field (ss ! i) ''endTime''"
  proof (intro allI impI)
    fix i assume "i < length ss"
    then have "Suc i < length (s # ss)" by simp
    with Cons.prems have "field ((m # ms) ! Suc i) ''endTime'' = field ((s # ss) ! Suc i) ''endTime''"
      by blast
    then show "field (ms ! i) ''endTime'' = field (ss ! i) ''endTime''" by simp
  qed
  from Cons.IH[OF tl] hd show ?case by (simp add: nullEnd_def endTimesKept_def)
qed

lemma sessionsOf_fresh: "sessionsOf (freshData e) = []"
  by (simp add: sessionsOf_def freshData_def)

lemma loaded_sessions:
  assumes "endTimesKept (sessionsOf (docOf f))"
  shows "endTimesKept (sessionsOf (loadData e f))
     \<and> length (filter nullEnd (sessionsOf (loadData e f))) \<le> activeCount f"
proof (cases f)
  case (Doc d)
  show ?thesis
  proof (cases "migrateDataStructure e d")
    case (Inl err)
    then show ?thesis using Doc by (simp add: loadData_def sessionsOf_fresh endTimesKept_def)
  next
    case (Inr r)
    from migrate_sessions_rel[OF Inr]
    have "length (sessionsOf r) = length (sessionsOf d)"
      and "\<forall>i < length (sessionsOf d).
             field (sessionsOf r ! i) ''endTime'' = field (sessionsOf d ! i) ''endTime''"
      by simp_all
    from same_endTimes[OF this] assms Doc Inr
    show ?thesis by (simp add: loadData_def docOf_def activeCount_def)
  qed
qed (simp_all add: loadData_def sessionsOf_fresh endTimesKept_def)

lemma nullEnd_isActive: "nullEnd s \<Longrightarrow> isActive s"
  by (cases "field s ''endTime''") (simp_all add: nullEnd_def isActive_def)

lemma field_closeSession_endTime:
  "field (closeSession e s) ''endTime'' = (if isObj s then JTime (clock e) else field s ''endTime'')"
  by (simp add: closeSession_def field_setField)

lemma updFirst_close:
  "length (filter nullEnd (updFirst isActive (closeSession e) ss)) \<le> length (filter nullEnd ss)
   \<and> (endTimesKept ss \<longrightarrow> endTimesKept (updFirst isActive (closeSession e) ss))"
proof (induction ss)
  case Nil
  then show ?case by simp
next
  case (Cons s ss)
  have a: "nullEnd (closeSession e s) \<longrightarrow> nullEnd s"
    by (simp add: nullEnd_def field_closeSession_endTime)
  have b: "\<not> writtenAsNull (field s ''endTime'')
             \<longrightarrow> \<not> writtenAsNull (field (closeSession e s) ''endTime'')"
    by (simp add: field_closeSession_endTime)
  show ?case using Cons a b by (auto simp: endTimesKept_def)
qed

lemma start_inv: "storeInv f \<Longrightarrow> storeInv (fst (start e mode cd tags f))"
proof -
  assume inv: "storeInv f"
  from start_file[of e mode cd tags f] show ?thesis
  proof
    assume "fst (start e mode cd tags f) = f"
    with inv show ?thesis by simp
  next
    assume "\<exists>d session. isObj d
      \<and> field d ''sessions'' = JArr (sessionsOf (loadData e f) @ [session])
      \<and> filter isActive (sessionsOf (loadData e f)) = []
      \<and> field session ''endTime'' = JNull
      \<and> fst (start e mode cd tags f) = saveData e d f"
    then obtain d session where h: "isObj d"
      "field d ''sessions'' = JArr (sessionsOf (loadData e f) @ [session])"
      "filter isActive (sessionsOf (loadData e f)) = []"
      "field session ''endTime'' = JNull"
      "fst (start e mode cd tags f) = saveData e d f" by blast
    show ?thesis
    proof (cases "writeFileOk e")
      case False
      then show ?thesis using h(5) inv by (simp add: save_not_ok)
    next
      case True
      let ?ss = "sessionsOf (loadData e f)"
      from inv have "endTimesKept ?ss" using loaded_sessions[of f e] by (simp add: storeInv_def)
      then have nn: "endTimesKept (?ss @ [session])" using h(4) by (simp add: endTimesKept_def)
      have "filter nullEnd ?ss = []"
        unfolding filter_empty_conv
      proof
        fix x assume "x \<in> set ?ss"
        with h(3) have "\<not> isActive x" by (simp add: filter_empty_conv)
        then show "\<not> nullEnd x" using nullEnd_isActive by blast
      qed
      then have "length (filter nullEnd (?ss @ [session])) \<le> 1" by simp
      with count_saved[OF h(1,2) True nn, of f] h(5) show ?thesis
        by (simp add: storeInv_def)
    qed
  qed
qed

lemma end_inv: "storeInv f \<Longrightarrow> storeInv (fst (endSession e f))"
proof -
  assume inv: "storeInv f"
  from endSession_file[of e f] show ?thesis
  proof
    assume "fst (endSession e f) = f"
    with inv show ?thesis by simp
  next
    assume "\<exists>d. isObj d
      \<and> field d ''sessions'' = JArr (updFirst isActive (closeSession e) (sessionsOf (loadData e f)))
      \<and> fst (endSession e f) = saveData e d f"
    then obtain d where h: "isObj d"
      "field d ''sessions'' = JArr (updFirst isActive (closeSession e) (sessionsOf (loadData e f)))"
      "fst (endSession e f) = saveData e d f" by blast
    show ?thesis
    proof (cases "writeFileOk e")
      case False
      then show ?thesis using h(3) inv by (simp add: save_not_ok)
    next
      case True
      let ?ss = "sessionsOf (loadData e f)"
      from inv have l: "endTimesKept ?ss" "length (filter nullEnd ?ss) \<le> 1"
        using loaded_sessions[of f e] by (simp_all add: storeInv_def)
      from updFirst_close[of e ?ss] l
      have nn: "endTimesKept (updFirst isActive (closeSession e) ?ss)"
        and c: "length (filter nullEnd (updFirst isActive (closeSession e) ?ss)) \<le> 1"
        by simp_all
      with count_saved[OF h(1,2) True nn, of f] h(3) show ?thesis
        by (simp add: storeInv_def)
    qed
  qed
qed

lemma exec_inv: "storeInv f \<Longrightarrow> storeInv (exec c f)"
proof (cases c)
  case (Pair e cmd)
  assume "storeInv f"
  then show ?thesis using Pair by (cases cmd) (simp_all add: start_inv end_inv)
qed

lemma run_inv: "storeInv f \<Longrightarrow> storeInv (run cmds f)"
  unfolding run_def by (induction cmds arbitrary: f) (simp_all add: exec_inv)


text \<open>The definitions that the evaluation of \<open>start\<close> on a sample store unfolds.\<close>

lemmas eval_defs = start_def defaultConfig_def loadData_def freshData_def
  resetCounters_def daysSince_def autoDetectionBlock_def config_get_def lookupIn_def isActive_def
  getTimerMode_def claudeMaxMode_def projectOf_def newSession_def saveData_def
  scheduleWarningsForMode_def scheduleWarnings_def arm_def Let_def js_or_def MAX_SESSION_MS_def
  WARNING_30_MIN_def WARNING_10_MIN_def migrateDataStructure_def zeroTokens_def noWarnings_def

text \<open>
  Claim C1, the part that fails. \<open>JSON.parse\<close> reads the end time \<open>1e999\<close> as infinity,
  which is truthy, so \<open>start()\<close> finds no active session and appends one; and
  \<open>JSON.stringify\<close> writes infinity as null. The store had no session with
  \<open>endTime == null\<close>; after one \<open>start\<close> it has two.
\<close>

theorem single_active_counterexample:
  "activeCount (Doc overflowDoc) = 0
   \<and> activeCount (run [(sampleAt 1000, Start ''claude-max'' JNull (JArr []))] (Doc overflowDoc))
       = 2"
  by (simp add: run_def activeCount_def sessionsOf_def nullEnd_def overflowDoc_def
      overflowSession_def eval_defs)

text \<open>
  Claim C1 as amended. Let the store file be missing, unreadable, or hold a document in
  which at most one session has \<open>endTime == null\<close> and no session has an end time that
  is infinite (or NaN or a function, which no file can hold). After any finite sequence
  of \<open>start\<close> and \<open>end\<close> commands, each run in its own environment (clock,
  configuration, success or failure of the write), the store still holds at most one
  session with \<open>endTime == null\<close>: \<open>start\<close> appends a session only when no session is
  active, and \<open>end\<close> only closes one.
\<close>

theorem single_active_session:
  assumes "endTimesKept (sessionsOf (docOf f))" and "activeCount f \<le> 1"
  shows "activeCount (run cmds f) \<le> 1"
  using run_inv[of f cmds] assms by (simp add: storeInv_def)

text \<open>
  The theorem at the store of the first version of the tracker, for two \<open>start\<close>s, an
  \<open>end\<close> and another \<open>start\<close>.
\<close>

theorem single_active_session_witness:
  "endTimesKept (sessionsOf (docOf (Doc legacyDoc))) \<and> activeCount (Doc legacyDoc) \<le> 1
   \<and> activeCount (run [(sampleAt 8000000, Start ''pomodoro'' JNull (JArr [])),
                        (sampleAt 8060000, Start ''claude-max'' JNull (JArr [])),
                        (sampleAt 8120000, End),
                        (sampleAt 8180000, Start ''custom'' (JNum 45) (JArr []))]
                       (Doc legacyDoc)) \<le> 1"
proof -
  have j: "endTimesKept (sessionsOf (docOf (Doc legacyDoc)))"
    by (simp add: endTimesKept_def docOf_def sessionsOf_def legacyDoc_def legacySession_def)
  have a: "activeCount (Doc legacyDoc) \<le> 1"
    by (simp add: activeCount_def sessionsOf_def legacyDoc_def legacySession_def nullEnd_def)
  from single_active_session[OF j a] j a show ?thesis by simp
qed


section \<open>What is written back\<close>

lemma saved_fields:
  assumes "isObj d" and "writeFileOk e"
  shows "\<exists>d'. saveData e d f = Doc d'
     \<and> field d' ''lastUpdate'' = JTime (clock e)
     \<and> field d' ''claudeCodeStatus'' = jsonify (claudeCodeStatus e)
     \<and> (\<forall>k. k \<noteq> ''lastUpdate'' \<and> k \<noteq> ''claudeCodeStatus'' \<longrightarrow>
            field d' k = jsonify (field d k))"
proof -
  let ?d2 = "setField (setField d ''lastUpdate'' (JTime (clock e)))
               ''claudeCodeStatus'' (claudeCodeStatus e)"
  have nn: "\<not> nullish d" using assms(1) by (cases d) auto
  have s: "saveData e d f = Doc (jsonify ?d2)"
    using nn assms(2) by (simp add: saveData_def Let_def)
  have o: "isObj ?d2" using assms(1) by simp
  have lu: "field ?d2 ''lastUpdate'' = JTime (clock e)"
    using assms(1) by (simp add: field_setField)
  have st: "field ?d2 ''claudeCodeStatus'' = claudeCodeStatus e"
    using assms(1) by (simp add: field_setField)
  have other: "field ?d2 k = field d k" if "k \<noteq> ''lastUpdate''" "k \<noteq> ''claudeCodeStatus''" for k
    using assms(1) that by (simp add: field_setField)
  show ?thesis using s lu st other by (simp add: field_jsonify_obj[OF o])
qed

lemma updFirst_split:
  "\<forall>x\<in>set pre. \<not> p x \<Longrightarrow> p s \<Longrightarrow> updFirst p g (pre @ s # post) = pre @ g s # post"
  by (induction pre) auto

lemma filter_split:
  "\<forall>x\<in>set pre. \<not> p x \<Longrightarrow> p s \<Longrightarrow> filter p (pre @ s # post) = s # filter p post"
  by (induction pre) auto

lemma map_jsonify_ok:
  "\<forall>x\<in>set xs. json_ok x \<Longrightarrow> map (\<lambda>x. if omitted x then JNull else jsonify x) xs = xs"
  by (induction xs) (auto simp: json_ok_jsonify json_ok_not_omitted)

lemma loadData_current:
  "field d ''version'' = JStr ''2.0.0'' \<Longrightarrow> loadData e (Doc d) = d"
  by (simp add: loadData_def migrate_current)

lemma json_ok_sessions:
  assumes "json_ok d" and "field d ''sessions'' = JArr ss"
  shows "\<forall>x\<in>set ss. json_ok x"
  using json_ok_field[OF assms(1), of "''sessions''"] assms(2) by (simp add: list_all_iff)

lemma isObj_not_nullish: "isObj s \<Longrightarrow> \<not> nullish s"
  by (cases s) auto

text \<open>
  Claim C9, the parts that fail. \<open>saveData\<close> stamps \<open>claudeCodeStatus\<close> as well as
  \<open>lastUpdate\<close>: a store saved while \<open>claude --version\<close> failed is loaded and written back
  with the status of the moment. And a number that \<open>JSON.parse\<close> has read as infinity is
  written back as null: the session that was loaded with the end time infinity is
  written back with the end time null.
\<close>

theorem save_load_counterexample:
  "field (loadData (sampleAt 1000) (Doc savedDoc)) ''claudeCodeStatus''
     = JObj [(''authenticated'', JBool False), (''error'', JStr ''Command failed: claude --version'')]
   \<and> field (docOf (saveData (sampleAt 1000) (loadData (sampleAt 1000) (Doc savedDoc)) (Doc savedDoc)))
        ''claudeCodeStatus''
     = JObj [(''authenticated'', JBool True), (''version'', JStr ''1.0.0'')]
   \<and> field (loadData (sampleAt 1000) (Doc overflowDoc)) ''sessions''
     = JArr [JObj [(''id'', JStr ''a''), (''startTime'', JTime 0), (''endTime'', JInf True),
                   (''duration'', JNum 100), (''claudeSessionId'', JNull)]]
   \<and> field (docOf (saveData (sampleAt 1000) (loadData (sampleAt 1000) (Doc overflowDoc))
                       (Doc overflowDoc))) ''sessions''
     = JArr [JObj [(''id'', JStr ''a''), (''startTime'', JTime 0), (''endTime'', JNull),
                   (''duration'', JNum 100), (''claudeSessionId'', JNull)]]"
  by (simp add: savedDoc_def overflowDoc_def overflowSession_def loadData_def
      migrateDataStructure_def saveData_def docOf_def Let_def)

text \<open>
  Claim C9 as amended. When the write succeeds, \<open>save(load())\<close> writes a document whose
  \<open>lastUpdate\<close> is now, whose \<open>claudeCodeStatus\<close> is the status of the moment, and in
  which every other key has the value it has in the loaded document as
  \<open>JSON.stringify\<close> writes it. That is the very same value (session records, counters,
  version or any other field) whenever the loaded value is absent or is one that
  \<open>JSON.stringify\<close> and \<open>JSON.parse\<close> reproduce: it holds no infinite number (written
  as null) and no undefined property (left out; only a document that \<open>loadData\<close> has
  migrated can have one).
\<close>

theorem save_load_roundtrip:
  assumes "writeFileOk e"
  shows "\<exists>d'. saveData e (loadData e f) f = Doc d'
     \<and> field d' ''lastUpdate'' = JTime (clock e)
     \<and> field d' ''claudeCodeStatus'' = jsonify (claudeCodeStatus e)
     \<and> (\<forall>k. k \<noteq> ''lastUpdate'' \<and> k \<noteq> ''claudeCodeStatus'' \<longrightarrow>
            field d' k = jsonify (field (loadData e f) k)
            \<and> (json_ok (field (loadData e f) k) \<or> field (loadData e f) k = JUndef
                 \<longrightarrow> field d' k = field (loadData e f) k))"
proof -
  from saved_fields[OF isObj_loadData assms, of e f f] obtain d' where
    d: "saveData e (loadData e f) f = Doc d'" "field d' ''lastUpdate'' = JTime (clock e)"
       "field d' ''claudeCodeStatus'' = jsonify (claudeCodeStatus e)"
    and k: "\<And>k. k \<noteq> ''lastUpdate'' \<Longrightarrow> k \<noteq> ''claudeCodeStatus'' \<Longrightarrow>
           field d' k = jsonify (field (loadData e f) k)"
    by blast
  have "field d' k = field (loadData e f) k"
    if "k \<noteq> ''lastUpdate''" "k \<noteq> ''claudeCodeStatus''"
       "json_ok (field (loadData e f) k) \<or> field (loadData e f) k = JUndef" for k
    using k[OF that(1,2)] that(3) by (auto simp: json_ok_jsonify)
  with d k show ?thesis by blast
qed

text \<open>The theorem at the store saved while the status probe failed.\<close>

theorem save_load_roundtrip_witness:
  "writeFileOk (sampleAt 1000)
   \<and> json_ok (field (loadData (sampleAt 1000) (Doc savedDoc)) ''sessions'')
   \<and> json_ok (field (loadData (sampleAt 1000) (Doc savedDoc)) ''totalUsage'')
   \<and> json_ok (field (loadData (sampleAt 1000) (Doc savedDoc)) ''version'')
   \<and> (\<exists>d'. saveData (sampleAt 1000) (loadData (sampleAt 1000) (Doc savedDoc)) (Doc savedDoc) = Doc d'
        \<and> field d' ''lastUpdate'' = JTime 1000
        \<and> field d' ''sessions'' = JArr [] \<and> field d' ''totalUsage'' = JNum 0
        \<and> field d' ''version'' = JStr ''2.0.0'')"
proof -
  have w: "writeFileOk (sampleAt 1000)" by simp
  have l: "loadData (sampleAt 1000) (Doc savedDoc) = savedDoc"
    by (simp add: loadData_current savedDoc_def)
  have c: "clock (sampleAt 1000) = 1000" by simp
  have f: "field savedDoc ''sessions'' = JArr []" "field savedDoc ''totalUsage'' = JNum 0"
    "field savedDoc ''version'' = JStr ''2.0.0''"
    by (simp_all add: savedDoc_def)
  from save_load_roundtrip[OF w, of "Doc savedDoc"] obtain d' where
    d: "saveData (sampleAt 1000) (loadData (sampleAt 1000) (Doc savedDoc)) (Doc savedDoc) = Doc d'"
       "field d' ''lastUpdate'' = JTime (clock (sampleAt 1000))"
    and k: "\<And>k. k \<noteq> ''lastUpdate'' \<and> k \<noteq> ''claudeCodeStatus'' \<longrightarrow>
            (json_ok (field (loadData (sampleAt 1000) (Doc savedDoc)) k)
               \<or> field (loadData (sampleAt 1000) (Doc savedDoc)) k = JUndef \<longrightarrow>
               field d' k = field (loadData (sampleAt 1000) (Doc savedDoc)) k)"
    by blast
  have "field d' ''sessions'' = JArr []" "field d' ''totalUsage'' = JNum 0"
       "field d' ''version'' = JStr ''2.0.0''"
    using k[of "''sessions''"] k[of "''totalUsage''"] k[of "''version''"] l f by simp_all
  with w l c d f show ?thesis by simp
qed


section \<open>Ending with several active sessions\<close>

lemma autoStart_appends:
  assumes "field d ''version'' = JStr ''2.0.0''" and "field d ''sessions'' = JArr ss"
    and "writeFileOk e"
  shows "\<exists>st' d'. autoStartSession e detected (st\<lparr> store := Doc d \<rparr>) = Some st'
     \<and> store st' = Doc d' \<and> length (sessionsOf d') = Suc (length ss)
     \<and> nullEnd (last (sessionsOf d'))"
proof -
  let ?sessionData = "autoSession e detected"
  let ?d2 = "setField d ''sessions'' (JArr (ss @ [?sessionData]))"
  have ld: "loadData e (Doc d) = d" using assms(1) by (rule loadData_current)
  have obj: "isObj d" using assms(1) by (rule isObj_version)
  have r: "autoStartSession e detected (st\<lparr> store := Doc d \<rparr>)
             = Some (st\<lparr> store := saveData e ?d2 (Doc d),
                         armed := scheduleWarnings e (field ?sessionData ''startTime'') \<rparr>)"
    unfolding autoStartSession_def Let_def by (simp add: ld assms(2))
  have "isObj ?d2" using obj by simp
  moreover have "field ?d2 ''sessions'' = JArr (ss @ [?sessionData])"
    using obj by (simp add: field_setField)
  ultimately obtain d' where d': "saveData e ?d2 (Doc d) = Doc d'"
    "sessionsOf d' = map (\<lambda>x. if omitted x then JNull else jsonify x) (ss @ [?sessionData])"
    using saved_sessions[OF _ _ assms(3), of ?d2 "ss @ [?sessionData]" "Doc d"] by blast
  have "field ?sessionData ''endTime'' = JNull"
    by (simp add: autoSession_def Let_def)
  then have "nullEnd ?sessionData" by (simp add: nullEnd_def)
  then have "nullEnd (if omitted ?sessionData then JNull else jsonify ?sessionData)"
    unfolding nullEnd_jsonify by simp
  then have "nullEnd (last (sessionsOf d'))" using d'(2) by simp
  with r d' show ?thesis by simp
qed

lemma isObj_not_omitted: "isObj s \<Longrightarrow> \<not> omitted s"
  by (cases s) auto

lemma isObj_closeSession: "isObj (closeSession e s) = isObj s"
  by (simp add: closeSession_def)

lemma map_jsonify_objs:
  "\<forall>x\<in>set xs. isObj x \<Longrightarrow> map (\<lambda>x. if omitted x then JNull else jsonify x) xs = map jsonify xs"
  by (simp add: isObj_not_omitted)

lemma closeSession_fields:
  assumes "isObj s"
  shows "field (closeSession e s) ''endTime'' = JTime (clock e)"
    and "field (closeSession e s) ''duration''
           = js_sub e (JNum (clock e)) (dateOf e (field s ''startTime''))"
    and "k \<noteq> ''endTime'' \<Longrightarrow> k \<noteq> ''duration'' \<Longrightarrow> field (closeSession e s) k = field s k"
  using assms by (simp_all add: closeSession_def field_setField)

lemma json_ok_closeSession:
  assumes "json_ok s" and "isObj s" and "field s ''startTime'' = JTime t0"
  shows "json_ok (closeSession e s)"
proof -
  have a: "\<not> isArr s" using assms(2) by (cases s) auto
  have "json_ok (setField s ''endTime'' (JTime (clock e)))"
    using assms(1) a by (simp add: json_ok_setField)
  moreover have "\<not> isArr (setField s ''endTime'' (JTime (clock e)))"
    using assms(2) by (cases s) auto
  ultimately show ?thesis
    using assms(3) by (simp add: closeSession_def json_ok_setField)
qed

lemma endSession_saves:
  assumes "field d ''version'' = JStr ''2.0.0''"
    and "field d ''sessions'' = JArr (pre @ s # post)"
    and "\<forall>x\<in>set (pre @ s # post). isObj x"
    and "\<forall>x\<in>set pre. \<not> isActive x" and "isActive s"
    and "writeFileOk e"
  shows "\<exists>d'. endSession e (Doc d) = (Doc d', Inr SessionEnded)
     \<and> sessionsOf d' = map jsonify (pre @ closeSession e s # post)
     \<and> field d' ''totalUsage''
         = jsonify (js_add e (field d ''totalUsage'')
                      (js_sub e (JNum (clock e)) (dateOf e (field s ''startTime''))))"
proof -
  let ?ss = "pre @ s # post"
  let ?dur = "js_sub e (JNum (clock e)) (dateOf e (field s ''startTime''))"
  let ?d2 = "setField (setField d ''sessions'' (JArr (pre @ closeSession e s # post)))
               ''totalUsage'' (js_add e (field d ''totalUsage'') ?dur)"
  have ld: "loadData e (Doc d) = d" using assms(1) by (rule loadData_current)
  have obj: "isObj d" using assms(1) by (rule isObj_version)
  have nn: "\<not> list_ex nullish ?ss"
    using assms(3) isObj_not_nullish unfolding list_ex_iff by blast
  have fa: "filter isActive ?ss = s # filter isActive post"
    using assms(4,5) by (rule filter_split)
  have uf: "updFirst isActive (closeSession e) ?ss = pre @ closeSession e s # post"
    using assms(4,5) by (rule updFirst_split)
  have es: "endSession e (Doc d) = (saveData e ?d2 (Doc d), Inr SessionEnded)"
    unfolding endSession_def ld Let_def assms(2) using nn fa uf by simp
  have obj2: "isObj ?d2" using obj by simp
  from saved_fields[OF obj2 assms(6), of "Doc d"] obtain d' where
    d': "saveData e ?d2 (Doc d) = Doc d'"
    and f: "\<And>k. k \<noteq> ''lastUpdate'' \<Longrightarrow> k \<noteq> ''claudeCodeStatus'' \<Longrightarrow>
            field d' k = jsonify (field ?d2 k)"
    by blast
  have objs: "\<forall>x\<in>set (pre @ closeSession e s # post). isObj x"
    using assms(3) by (simp add: isObj_closeSession)
  have "field d' ''sessions'' = jsonify (JArr (pre @ closeSession e s # post))"
    using f[of "''sessions''"] obj by (simp add: field_setField)
  also have "\<dots> = JArr (map jsonify (pre @ closeSession e s # post))"
    using map_jsonify_objs[OF objs] by simp
  finally have so: "sessionsOf d' = map jsonify (pre @ closeSession e s # post)"
    by (simp add: sessionsOf_def)
  have t: "field d' ''totalUsage'' = jsonify (js_add e (field d ''totalUsage'') ?dur)"
    using f[of "''totalUsage''"] obj by (simp add: field_setField)
  show ?thesis using es d' so t by simp
qed


text \<open>
  Claim C10, the parts that fail. \<open>end()\<close> closes the first session whose end time is
  falsy, not the first whose end time is null: in a store whose first session has the
  end time \<open>""\<close> that session is closed, and the two sessions with the end time null both
  stay open. A number that was read as infinity is written back as null: the session
  that had the end time infinity is written back open. A store below version \<open>2.0.0\<close>
  is migrated by the load: the second active session is written back rebuilt (it has
  a mode now). A null element makes \<open>end()\<close> throw, and when the write fails \<open>end()\<close>
  reports the session ended and the store is as it was.
\<close>

theorem end_closes_counterexample:
  "map (\<lambda>s. field s ''endTime'')
       (sessionsOf (docOf (fst (endSession (sampleAt 5000)
          (Doc (storeWith [blankEndSession, manualSession, detectedSession]))))))
     = [JTime 5000, JNull, JNull]
   \<and> map (\<lambda>s. field s ''endTime'')
       (sessionsOf (docOf (fst (endSession (sampleAt 5000)
          (Doc (storeWith [overflowSession, manualSession, detectedSession]))))))
     = [JNull, JTime 5000, JNull]
   \<and> field (sessionsOf legacyTwoActiveDoc ! 1) ''mode'' = JUndef
   \<and> field (sessionsOf (docOf (fst (endSession (sampleAt 5000) (Doc legacyTwoActiveDoc)))) ! 1)
        ''mode'' = JStr ''claude-max''
   \<and> endSession (sampleAt 5000) (Doc (storeWith [JNull, manualSession, detectedSession]))
     = (Doc (storeWith [JNull, manualSession, detectedSession]), Inl TypeError)
   \<and> endSession ((sampleAt 5000)\<lparr> writeFileOk := False \<rparr>) (Doc twoActiveDoc)
     = (Doc twoActiveDoc, Inr SessionEnded)"
  by (simp add: storeWith_def blankEndSession_def overflowSession_def manualSession_def
      detectedSession_def legacyTwoActiveDoc_def legacyActive_def twoActiveDoc_def
      endedSession_def endSession_def closeSession_def sessionsOf_def docOf_def
      migratedData_def migrateSession_def migratedSession_def alreadyNew_def js_and_def
      eval_defs)

text \<open>
  Claim C10 as amended. Let the store be at version \<open>2.0.0\<close>, let its sessions be
  objects, let \<open>s\<close> be the first of them whose end time is falsy (none before it has
  one), and let the write succeed. Then \<open>end()\<close> reports the session ended and writes a
  document in which \<open>s\<close> has the end time now and as duration now less its start time,
  and is otherwise what it was; every session is written as \<open>JSON.stringify\<close> writes
  it, and \<open>totalUsage\<close> is the sum of the old value and that one duration. When the
  store is one that \<open>JSON.stringify\<close> and \<open>JSON.parse\<close> reproduce (it holds no infinite
  number) and \<open>s\<close> has a start time \<open>t0\<close> written by the tracker, every other session,
  before or after, is what it was, the active sessions left are exactly the active
  sessions after \<open>s\<close>, the duration is \<open>now - t0\<close>, and a \<open>totalUsage\<close> of \<open>u\<close> has become
  \<open>u + (now - t0)\<close>, all three below \<open>2^53\<close>. (Two active sessions arise from
  \<open>autoStartSession\<close>, which appends without looking for an active one:
  \<open>autoStart_appends\<close>.)
\<close>

theorem end_closes_first_active:
  assumes "field d ''version'' = JStr ''2.0.0''"
    and "field d ''sessions'' = JArr (pre @ s # post)"
    and "\<forall>x\<in>set (pre @ s # post). isObj x"
    and "\<forall>x\<in>set pre. \<not> isActive x" and "isActive s"
    and "writeFileOk e"
  shows "\<exists>d'. endSession e (Doc d) = (Doc d', Inr SessionEnded)
     \<and> sessionsOf d' = map jsonify (pre @ closeSession e s # post)
     \<and> field (closeSession e s) ''endTime'' = JTime (clock e)
     \<and> field (closeSession e s) ''duration''
         = js_sub e (JNum (clock e)) (dateOf e (field s ''startTime''))
     \<and> (\<forall>k. k \<noteq> ''endTime'' \<and> k \<noteq> ''duration'' \<longrightarrow> field (closeSession e s) k = field s k)
     \<and> field d' ''totalUsage''
         = jsonify (js_add e (field d ''totalUsage'') (field (closeSession e s) ''duration''))
     \<and> (json_ok d \<and> field s ''startTime'' = JTime t0 \<longrightarrow>
           sessionsOf d' = pre @ closeSession e s # post
           \<and> filter isActive (sessionsOf d') = filter isActive post
           \<and> field (closeSession e s) ''duration'' = JNum (clock e - t0)
           \<and> (field d ''totalUsage'' = JNum u \<and> \<bar>u\<bar> \<le> 2 ^ 53 \<and> \<bar>clock e - t0\<bar> \<le> 2 ^ 53
                 \<and> \<bar>u + (clock e - t0)\<bar> \<le> 2 ^ 53
               \<longrightarrow> field d' ''totalUsage'' = JNum (u + (clock e - t0))))"
proof -
  have objs: "isObj s" using assms(3) by simp
  note cf = closeSession_fields[OF objs, where e = e]
  from endSession_saves[OF assms] obtain d' where
    es: "endSession e (Doc d) = (Doc d', Inr SessionEnded)"
    and so: "sessionsOf d' = map jsonify (pre @ closeSession e s # post)"
    and tu: "field d' ''totalUsage''
         = jsonify (js_add e (field d ''totalUsage'')
                      (js_sub e (JNum (clock e)) (dateOf e (field s ''startTime''))))"
    by blast
  have rest: "sessionsOf d' = pre @ closeSession e s # post
           \<and> filter isActive (sessionsOf d') = filter isActive post
           \<and> field (closeSession e s) ''duration'' = JNum (clock e - t0)
           \<and> (field d ''totalUsage'' = JNum u \<and> \<bar>u\<bar> \<le> 2 ^ 53 \<and> \<bar>clock e - t0\<bar> \<le> 2 ^ 53
                 \<and> \<bar>u + (clock e - t0)\<bar> \<le> 2 ^ 53
               \<longrightarrow> field d' ''totalUsage'' = JNum (u + (clock e - t0)))"
    if j: "json_ok d" and t0: "field s ''startTime'' = JTime t0"
  proof -
    have okss: "\<forall>x\<in>set (pre @ s # post). json_ok x" using j assms(2) by (rule json_ok_sessions)
    then have "json_ok s" by simp
    then have okc: "json_ok (closeSession e s)" using objs t0 by (rule json_ok_closeSession)
    have "\<forall>x\<in>set (pre @ closeSession e s # post). json_ok x" using okss okc by auto
    then have "map jsonify (pre @ closeSession e s # post) = pre @ closeSession e s # post"
      by (intro map_idI) (auto simp: json_ok_jsonify)
    with so have so': "sessionsOf d' = pre @ closeSession e s # post" by simp
    have "\<not> isActive (closeSession e s)"
      by (simp add: isActive_def cf(1))
    then have fl: "filter isActive (pre @ closeSession e s # post) = filter isActive post"
      using assms(4) by (simp add: filter_empty_conv)
    have du: "field (closeSession e s) ''duration'' = JNum (clock e - t0)"
      by (simp add: cf(2) t0)
    have "field d' ''totalUsage'' = JNum (u + (clock e - t0))"
      if "field d ''totalUsage'' = JNum u"
      using tu that t0 by simp
    with so' fl du show ?thesis by simp
  qed
  have k: "\<forall>k. k \<noteq> ''endTime'' \<and> k \<noteq> ''duration'' \<longrightarrow> field (closeSession e s) k = field s k"
    using cf(3) by blast
  have tu': "field d' ''totalUsage''
         = jsonify (js_add e (field d ''totalUsage'') (field (closeSession e s) ''duration''))"
    using tu cf(2) by simp
  have r: "json_ok d \<and> field s ''startTime'' = JTime t0 \<longrightarrow>
           sessionsOf d' = pre @ closeSession e s # post
           \<and> filter isActive (sessionsOf d') = filter isActive post
           \<and> field (closeSession e s) ''duration'' = JNum (clock e - t0)
           \<and> (field d ''totalUsage'' = JNum u \<and> \<bar>u\<bar> \<le> 2 ^ 53 \<and> \<bar>clock e - t0\<bar> \<le> 2 ^ 53
                 \<and> \<bar>u + (clock e - t0)\<bar> \<le> 2 ^ 53
               \<longrightarrow> field d' ''totalUsage'' = JNum (u + (clock e - t0)))"
    using rest by blast
  from es so cf(1) cf(2) k tu' r show ?thesis by blast
qed

text \<open>
  The theorem at the store with two active sessions, four seconds after the first of
  them started: the session started by hand is closed, the detected one stays active.
\<close>

theorem end_closes_first_active_witness:
  "\<exists>d'. endSession (sampleAt 5000) (Doc twoActiveDoc) = (Doc d', Inr SessionEnded)
     \<and> sessionsOf d' = [endedSession, closeSession (sampleAt 5000) manualSession, detectedSession]
     \<and> field (closeSession (sampleAt 5000) manualSession) ''endTime'' = JTime 5000
     \<and> field (closeSession (sampleAt 5000) manualSession) ''duration'' = JNum 4000
     \<and> filter isActive (sessionsOf d') = [detectedSession]
     \<and> field d' ''totalUsage'' = JNum 4100"
proof -
  have v: "field twoActiveDoc ''version'' = JStr ''2.0.0''"
    and j: "json_ok twoActiveDoc"
    and ss: "field twoActiveDoc ''sessions'' = JArr ([endedSession] @ manualSession # [detectedSession])"
    and u: "field twoActiveDoc ''totalUsage'' = JNum 100"
    by (simp_all add: twoActiveDoc_def endedSession_def manualSession_def detectedSession_def)
  have o: "\<forall>x\<in>set ([endedSession] @ manualSession # [detectedSession]). isObj x"
    by (simp add: endedSession_def manualSession_def detectedSession_def)
  have p: "\<forall>x\<in>set [endedSession]. \<not> isActive x"
    by (simp add: endedSession_def isActive_def)
  have a: "isActive manualSession" and t: "field manualSession ''startTime'' = JTime 1000"
    by (simp_all add: manualSession_def isActive_def)
  have a2: "isActive detectedSession"
    by (simp add: detectedSession_def isActive_def)
  have w: "writeFileOk (sampleAt 5000)" and c: "clock (sampleAt 5000) = 5000"
    by simp_all
  show ?thesis
    using end_closes_first_active[OF v ss o p a w, of 1000 100] j t u a2 p
    unfolding c
    apply (elim exE conjE)
    subgoal for d'
      apply (rule exI[of _ d'])
      apply (simp add: isActive_def)
      done
    done
qed


section \<open>The daily and the monthly reset\<close>

text \<open>
  Claim C7. \<open>loadData\<close> resets nothing: 25 hours after the last daily reset (and 48
  hours after it, for a store that is migrated on the way) the loaded document still
  has the daily usage and the reset stamp of the file, and 31 days after the last
  monthly reset it still has the monthly count of the file. So \<open>end()\<close>, 25 hours after
  the reset, adds the duration of the session to the usage of the day before and
  leaves the stamp. The two resets are made by \<open>start()\<close> alone, and written only when
  it creates a session: on the same stale store it writes the daily usage 0 and the
  stamp now (and, after 31 days, the monthly count 1 for the new session); when a
  session is active it writes nothing.
\<close>

theorem load_resets_nothing:
  "field (loadData (sampleAt 90000000) (Doc staleDoc)) ''totalUsage'' = JNum 100
   \<and> field (loadData (sampleAt 90000000) (Doc staleDoc)) ''lastReset'' = JTime 0
   \<and> field (loadData (sampleAt 172800000) (Doc legacyDoc)) ''totalUsage'' = JNum 7200000
   \<and> field (loadData (sampleAt 172800000) (Doc legacyDoc)) ''lastReset'' = JTime 0
   \<and> field (loadData (sampleAt 2678400000) (Doc staleDoc)) ''monthlySessionCount'' = JNum 2
   \<and> field (loadData (sampleAt 2678400000) (Doc staleDoc)) ''lastMonthReset'' = JTime 0
   \<and> field (docOf (fst (endSession (sampleAt 90000000) (Doc twoActiveDoc)))) ''totalUsage''
       = JNum 89999100
   \<and> field (docOf (fst (endSession (sampleAt 90000000) (Doc twoActiveDoc)))) ''lastReset''
       = JTime 0
   \<and> field (docOf (fst (start (sampleAt 90000000) ''claude-max'' JNull (JArr []) (Doc staleDoc))))
        ''totalUsage'' = JNum 0
   \<and> field (docOf (fst (start (sampleAt 90000000) ''claude-max'' JNull (JArr []) (Doc staleDoc))))
        ''lastReset'' = JTime 90000000
   \<and> field (docOf (fst (start (sampleAt 2678400000) ''claude-max'' JNull (JArr []) (Doc staleDoc))))
        ''monthlySessionCount'' = JNum 1
   \<and> fst (start (sampleAt 90000000) ''claude-max'' JNull (JArr []) (Doc twoActiveDoc))
       = Doc twoActiveDoc"
proof -
  have l: "loadData e (Doc staleDoc) = staleDoc" for e
    by (rule loadData_current) (simp add: staleDoc_def)
  have m: "migrateDataStructure (sampleAt 172800000) legacyDoc
      = Inr (migratedData (sampleAt 172800000) legacyDoc
               [migratedSession (sampleAt 172800000) 0 legacySession
                  (detectProject (sampleAt 172800000) (JStr ''/home/dev/app''))])"
    by (simp add: legacyDoc_def legacySession_def migrateDataStructure_def migrateSession_def
        alreadyNew_def js_or_def js_and_def projectOf_def config_get_def lookupIn_def
        defaultConfig_def)
  have a: "field (loadData (sampleAt 172800000) (Doc legacyDoc)) ''totalUsage'' = JNum 7200000"
    "field (loadData (sampleAt 172800000) (Doc legacyDoc)) ''lastReset'' = JTime 0"
    using m by (simp_all add: loadData_def field_migratedData js_or_def legacyDoc_def)
  have b: "field staleDoc ''totalUsage'' = JNum 100" "field staleDoc ''lastReset'' = JTime 0"
    "field staleDoc ''monthlySessionCount'' = JNum 2" "field staleDoc ''lastMonthReset'' = JTime 0"
    by (simp_all add: staleDoc_def)
  have c: "field (docOf (fst (endSession (sampleAt 90000000) (Doc twoActiveDoc)))) ''totalUsage''
       = JNum 89999100"
    "field (docOf (fst (endSession (sampleAt 90000000) (Doc twoActiveDoc)))) ''lastReset''
       = JTime 0"
    by (simp_all add: twoActiveDoc_def endedSession_def manualSession_def detectedSession_def
        endSession_def closeSession_def docOf_def eval_defs)
  have d: "field (docOf (fst (start (sampleAt 90000000) ''claude-max'' JNull (JArr []) (Doc staleDoc))))
        ''totalUsage'' = JNum 0"
    "field (docOf (fst (start (sampleAt 90000000) ''claude-max'' JNull (JArr []) (Doc staleDoc))))
        ''lastReset'' = JTime 90000000"
    "field (docOf (fst (start (sampleAt 2678400000) ''claude-max'' JNull (JArr []) (Doc staleDoc))))
        ''monthlySessionCount'' = JNum 1"
    by (simp_all add: staleDoc_def endedSession_def docOf_def eval_defs)
  have f: "fst (start (sampleAt 90000000) ''claude-max'' JNull (JArr []) (Doc twoActiveDoc))
       = Doc twoActiveDoc"
    by (simp add: twoActiveDoc_def endedSession_def manualSession_def detectedSession_def
        eval_defs)
  show ?thesis using a b c d f by (simp add: l)
qed

section \<open>Starting again while a session is active\<close>

text \<open>
  Claim C5, at a Pomodoro session. Started at the instant 1000, the session is armed by
  \<open>scheduleWarningsForMode\<close> with its warning 20 minutes and its automatic end 25
  minutes after the start. A second \<open>start\<close> one minute later finds the session active
  and re-arms with \<open>scheduleWarnings\<close>, which knows the five-hour limit only: the timers
  are now the 30-minute warning, the 10-minute warning and the expiry of a five-hour
  session, 4 h 30 min, 4 h 50 min and 5 h after the original start, and none of the two
  timers of the Pomodoro mode. (The fire times are relative to the original start, as
  the claim says; the configuration they are computed from is not the session's.)
\<close>

theorem rearm_ignores_timer_mode:
  "snd (start (sampleAt 1000) ''pomodoro'' JNull (JArr []) Absent)
     = Inr [(ModeWarning (JNum 300000), JNum 1200000), (ModeAutoEnd, JNum 1500000)]
   \<and> snd (start (sampleAt 61000) ''pomodoro'' JNull (JArr [])
             (fst (start (sampleAt 1000) ''pomodoro'' JNull (JArr []) Absent)))
     = Inr [(Warning30, JNum 16140000), (Warning10, JNum 17340000), (Expired, JNum 17940000)]"
  by (simp add: eval_defs)


section \<open>Registering a timer mode\<close>










section \<open>An activity entry delivered twice\<close>

lemma js_inc_num [simp]: "js_inc e (JNum n) = JNum (n + 1)"
  using ofNum_of_int[of "n + 1"] by (simp add: js_inc_def whole_def del: ofNum_of_int)

lemma auto_fields [simp]:
  "clock (autoStartAt t) = t"
  "configData (autoStartAt t) = autoStartConfig"
  "sessionUUID (autoStartAt t) = ''fresh''"
  "detectProject (autoStartAt t) = (\<lambda>w. JObj [(''name'', JStr ''app''), (''path'', w),
                                    (''type'', JStr ''unknown''), (''git'', JNull),
                                    (''packageInfo'', JNull)])"
  "claudeCodeStatus (autoStartAt t) = JObj [(''authenticated'', JBool True), (''version'', JStr ''1.0.0'')]"
  "writeFileOk (autoStartAt t) = True"
  "pathBasename (autoStartAt t) = (\<lambda>p. ''app'')"
  by (simp_all add: autoStartAt_def)

lemmas auto_defs = processJSONLEntry_def trackEntry_def addUsage_def mapGet_def mapSet_def
  zeroTokens_def js_or_def Let_def config_get_def lookupIn_def usageEntry_def laterEntry_def
  onSessionUpdated_def autoStartSession_def autoSession_def extractWorkingDirectory_def
  loadData_def freshData_def autoDetectionBlock_def saveData_def migrateDataStructure_def
  tracks_def isActive_def strictEq_def noWarnings_def scheduleWarnings_def arm_def
  MAX_SESSION_MS_def WARNING_30_MIN_def WARNING_10_MIN_def

lemma once_detected:
  "processJSONLEntry (sampleAt 2000) usageEntry logPath idle
     = \<lparr> activeSessions =
           [(JStr ''claude-1'',
             JObj [(''sessionId'', JStr ''claude-1''),
                   (''filePath'', JStr logPath),
                   (''startTime'', JTime 1000), (''lastActivity'', JTime 1000),
                   (''cwd'', JStr ''/home/dev/app''), (''messageCount'', JNum 1),
                   (''tokens'', JObj [(''input'', JNum 10), (''output'', JNum 4),
                                      (''cacheCreate'', JNum 0), (''cacheRead'', JNum 0)])])],
         store = Absent, armed = [] \<rparr>"
  by (simp add: auto_defs idle_def defaultConfig_def)

lemma once_stored:
  "processJSONLEntry (autoStartAt 2000) usageEntry logPath idle
     = \<lparr> activeSessions =
           [(JStr ''claude-1'',
             JObj [(''sessionId'', JStr ''claude-1''),
                   (''filePath'', JStr logPath),
                   (''startTime'', JTime 1000), (''lastActivity'', JTime 1000),
                   (''cwd'', JStr ''/home/dev/app''), (''messageCount'', JNum 1),
                   (''tokens'', JObj [(''input'', JNum 10), (''output'', JNum 4),
                                      (''cacheCreate'', JNum 0), (''cacheRead'', JNum 0)])])],
         store =
           Doc (JObj
             [(''version'', JStr ''2.0.0''),
              (''sessions'',
               JArr [JObj
                 [(''id'', JStr ''fresh''), (''startTime'', JTime 1000),
                  (''endTime'', JNull), (''duration'', JNull),
                  (''mode'', JStr ''claude-max''),
                  (''workingDirectory'', JStr ''app''),
                  (''project'',
                   JObj [(''name'', JStr ''app''), (''path'', JStr ''app''),
                         (''type'', JStr ''unknown''), (''git'', JNull),
                         (''packageInfo'', JNull)]),
                  (''tags'', JArr []),
                  (''warnings'', JObj [(''30min'', JBool False), (''10min'', JBool False)]),
                  (''tokens'', JObj [(''input'', JNum 10), (''output'', JNum 4),
                                     (''cacheCreate'', JNum 0), (''cacheRead'', JNum 0)]),
                  (''environment'', JStr ''WSL''),
                  (''claudeSessionId'', JStr ''claude-1''),
                  (''claudeCodeVersion'', JNull)]]),
              (''totalUsage'', JNum 0), (''lastReset'', JTime 2000),
              (''monthlySessionCount'', JNum 0),
              (''lastMonthReset'', JTime 2000),
              (''autoDetection'',
               JObj [(''enabled'', JBool True), (''lastScan'', JNull),
                     (''activeSessions'', JArr [])]),
              (''lastUpdate'', JTime 2000),
              (''claudeCodeStatus'',
               JObj [(''authenticated'', JBool True), (''version'', JStr ''1.0.0'')])]),
         armed = [(Warning30, JNum 16199000), (Warning10, JNum 17399000),
                  (Expired, JNum 17999000)] \<rparr>"
  by (simp add: auto_defs idle_def autoStartConfig_def)

text \<open>
  Claim C8. An entry of the activity log that reports ten input tokens is processed,
  and then the same entry is processed again. After the first time the detector has
  counted one message and ten input tokens for the session; after the second time, two
  messages and twenty input tokens. With \<open>sessions.autoStart\<close> on, the session in the
  store has ten input tokens after the first time and twenty after the second. And
  the detector delivers entries twice by itself: \<open>processFileChanges\<close> reads the last
  ten lines of the log at every change of the file, so when a second entry with seven
  input tokens is appended to the log, the first is processed again, and the session
  that has used 17 input tokens in two messages is counted with 27 in three.
\<close>

theorem duplicate_entry_counted_twice:
  "detectedTokens (processJSONLEntry (sampleAt 2000) usageEntry logPath idle)
     = [(JNum 10, JNum 1)]
   \<and> detectedTokens (processJSONLEntry (sampleAt 3000) usageEntry logPath
                       (processJSONLEntry (sampleAt 2000) usageEntry logPath idle))
     = [(JNum 20, JNum 2)]
   \<and> storedTokens (processJSONLEntry (autoStartAt 2000) usageEntry logPath idle) = [JNum 10]
   \<and> storedTokens (processJSONLEntry (autoStartAt 3000) usageEntry logPath
                      (processJSONLEntry (autoStartAt 2000) usageEntry logPath idle))
     = [JNum 20]
   \<and> detectedTokens (processFileChanges (sampleAt 4000) [Some usageEntry, Some laterEntry] logPath
                       (processFileChanges (sampleAt 2000) [Some usageEntry] logPath idle))
     = [(JNum 27, JNum 3)]"
proof -
  have a: "detectedTokens (processJSONLEntry (sampleAt 2000) usageEntry logPath idle)
     = [(JNum 10, JNum 1)]"
    unfolding once_detected by (simp add: detectedTokens_def)
  have b: "detectedTokens (processJSONLEntry (sampleAt 3000) usageEntry logPath
                       (processJSONLEntry (sampleAt 2000) usageEntry logPath idle))
     = [(JNum 20, JNum 2)]"
    unfolding once_detected by (simp add: detectedTokens_def auto_defs defaultConfig_def)
  have c: "storedTokens (processJSONLEntry (autoStartAt 2000) usageEntry logPath idle) = [JNum 10]"
    unfolding once_stored by (simp add: storedTokens_def sessionsOf_def docOf_def)
  have d: "storedTokens (processJSONLEntry (autoStartAt 3000) usageEntry logPath
                      (processJSONLEntry (autoStartAt 2000) usageEntry logPath idle))
     = [JNum 20]"
    unfolding once_stored
    by (simp add: storedTokens_def sessionsOf_def docOf_def auto_defs autoStartConfig_def)
  have f: "detectedTokens (processFileChanges (sampleAt 4000) [Some usageEntry, Some laterEntry] logPath
                       (processFileChanges (sampleAt 2000) [Some usageEntry] logPath idle))
     = [(JNum 27, JNum 3)]"
    unfolding processFileChanges_def
    by (simp add: once_detected) (simp add: detectedTokens_def auto_defs defaultConfig_def)
  show ?thesis using a b c d f by simp
qed

text \<open>
  The theorem at its entry: the entry has a session identifier and a timestamp, so it
  is not skipped, and processing it a second time changes what the detector holds.
\<close>

theorem duplicate_entry_counted_twice_witness:
  "truthy (field usageEntry ''sessionId'') \<and> truthy (field usageEntry ''timestamp'')
   \<and> detectedTokens (processJSONLEntry (sampleAt 3000) usageEntry logPath
                       (processJSONLEntry (sampleAt 2000) usageEntry logPath idle))
     \<noteq> detectedTokens (processJSONLEntry (sampleAt 2000) usageEntry logPath idle)"
  using duplicate_entry_counted_twice by (simp add: usageEntry_def)

end
